theory Spec2Isabelle
  imports Complex_Main "HOL-Library.Sublist"
begin

section \<open>Python strings and truthiness\<close>

text \<open>
  Descriptor fields, table keys, paths and environment values are Python \<open>str\<close> objects that
  the code only compares, tests for emptiness, lower-cases and checks for a prefix; they are
  modelled as \<^typ>\<open>string\<close>. An \<open>Optional[str]\<close> is a \<^typ>\<open>string option\<close>.
  Python's truth test on such a value (\<open>if x:\<close>, \<open>any([...])\<close>, \<open>x or y\<close>) is false for
  \<open>None\<close> and for the empty string.
\<close>

definition truthy :: "string option \<Rightarrow> bool" where
  "truthy x = (case x of None \<Rightarrow> False | Some s \<Rightarrow> s \<noteq> [])"

definition startswith :: "string \<Rightarrow> string \<Rightarrow> bool" where
  "startswith s p = (take (length p) s = p)"

text \<open>\<open>str.lower\<close> on the code points a \<^typ>\<open>char\<close> can hold (0..255): the ASCII capitals
  and the Latin-1 capitals \<open>U+00C0..U+00DE\<close> without the multiplication sign move up by 32.\<close>

definition lower_char :: "char \<Rightarrow> char" where
  "lower_char c =
     (let n = (of_char c :: nat)
      in if (65 \<le> n \<and> n \<le> 90) \<or> (192 \<le> n \<and> n \<le> 222 \<and> n \<noteq> 215)
         then char_of (n + 32) else c)"

definition lower :: "string \<Rightarrow> string" where
  "lower s = map lower_char s"

section \<open>StreamInfo (core/stream\_info.py)\<close>

record StreamInfo =
  mimetype :: "string option"
  extension :: "string option"
  charset :: "string option"
  filename :: "string option"
  local_path :: "string option"
  url :: "string option"

text \<open>\<open>StreamInfo.__eq__\<close>: the other operand is a StreamInfo by typing, so the
  \<open>isinstance\<close> guard is always passed.\<close>

definition StreamInfo_eq :: "StreamInfo \<Rightarrow> StreamInfo \<Rightarrow> bool" where
  "StreamInfo_eq self other =
     (mimetype self = mimetype other \<and>
      extension self = extension other \<and>
      filename self = filename other)"

text \<open>\<open>StreamInfo.is_empty\<close>: \<open>not any([mimetype, extension, filename, local_path, url])\<close>.\<close>

definition is_empty :: "StreamInfo \<Rightarrow> bool" where
  "is_empty self =
     (\<not> list_ex truthy
          [mimetype self, extension self, filename self, local_path self, url self])"

section \<open>Descriptor equality and emptiness\<close>

text \<open>
  Claim C8 (as amended). Two descriptors compare equal exactly when their MIME types, their
  extensions and their filenames are equal; the character set, the local path and the URL
  take no part in the comparison.
\<close>

theorem StreamInfo_eq_fields:
  "(StreamInfo_eq a b \<longleftrightarrow>
     (mimetype a = mimetype b \<and> extension a = extension b \<and> filename a = filename b))
   \<and> StreamInfo_eq (a\<lparr>charset := c1, local_path := p1, url := u1\<rparr>)
                     (b\<lparr>charset := c2, local_path := p2, url := u2\<rparr>) = StreamInfo_eq a b"
  by (simp add: StreamInfo_eq_def)

text \<open>
  Claim C8 as stated fails: two descriptors with the same MIME type and the same extension
  but different filenames are not equal, so equality of MIME type and extension does not
  decide \<open>__eq__\<close>.
\<close>

theorem StreamInfo_eq_filename_counterexample:
  "\<not> (StreamInfo_eq
         \<lparr>mimetype = Some ''text/plain'', extension = Some ''.txt'', charset = None,
          filename = Some ''a.txt'', local_path = None, url = None\<rparr>
         \<lparr>mimetype = Some ''text/plain'', extension = Some ''.txt'', charset = None,
          filename = Some ''b.txt'', local_path = None, url = None\<rparr>
       \<longleftrightarrow>
         (mimetype \<lparr>mimetype = Some ''text/plain'', extension = Some ''.txt'', charset = None,
             filename = Some ''a.txt'', local_path = None, url = None\<rparr>
            = mimetype \<lparr>mimetype = Some ''text/plain'', extension = Some ''.txt'',
                charset = None, filename = Some ''b.txt'', local_path = None, url = None\<rparr>
          \<and> extension \<lparr>mimetype = Some ''text/plain'', extension = Some ''.txt'',
                charset = None, filename = Some ''a.txt'', local_path = None, url = None\<rparr>
            = extension \<lparr>mimetype = Some ''text/plain'', extension = Some ''.txt'',
                charset = None, filename = Some ''b.txt'', local_path = None, url = None\<rparr>))"
  by (simp add: StreamInfo_eq_def)

text \<open>
  Claim C10. \<open>is_empty\<close> does not look at the character set: it is true exactly when the
  MIME type, the extension, the filename, the local path and the URL are all unset, where
  unset is what Python's truth test reports (\<open>None\<close> or the empty string). Changing the
  character set never changes the answer, and a descriptor that carries only a character
  encoding is empty.
\<close>

theorem is_empty_ignores_charset:
  "(is_empty s \<longleftrightarrow>
     ((mimetype s = None \<or> mimetype s = Some []) \<and>
      (extension s = None \<or> extension s = Some []) \<and>
      (filename s = None \<or> filename s = Some []) \<and>
      (local_path s = None \<or> local_path s = Some []) \<and>
      (url s = None \<or> url s = Some [])))
   \<and> is_empty (s\<lparr>charset := c\<rparr>) = is_empty s
   \<and> is_empty \<lparr>mimetype = None, extension = None, charset = Some enc, filename = None,
             local_path = None, url = None\<rparr>"
  by (auto simp add: is_empty_def truthy_def split: option.splits)

section \<open>Converter registry (core/markitdown.py)\<close>

text \<open>
  A registration pairs a converter with its priority. Priorities are Python floats that the
  code only compares with \<open>>\<close>; they are modelled as reals (every finite float is one, and
  the comparison agrees).
\<close>

record 'c ConverterRegistration =
  converter :: 'c
  priority :: real

text \<open>
  The \<open>for i, reg in enumerate(self._converters)\<close> loop of \<open>register_converter\<close>:
  \<open>i\<close> is the index of \<open>reg\<close>, the last argument is the current \<open>insert_pos\<close>; the
  \<open>break\<close> returns \<open>i\<close>, and when the list is exhausted the last value assigned stays.
\<close>

fun insert_pos_loop :: "real \<Rightarrow> nat \<Rightarrow> 'c ConverterRegistration list \<Rightarrow> nat \<Rightarrow> nat" where
  "insert_pos_loop p i [] insert_pos = insert_pos"
| "insert_pos_loop p i (reg # regs) insert_pos =
     (if priority reg > p then i else insert_pos_loop p (Suc i) regs (Suc i))"

text \<open>\<open>list.insert(pos, x)\<close> for \<open>0 \<le> pos\<close> (a position past the end appends).\<close>

definition list_insert :: "nat \<Rightarrow> 'a \<Rightarrow> 'a list \<Rightarrow> 'a list" where
  "list_insert pos x xs = take pos xs @ x # drop pos xs"

definition register_converter ::
  "'c \<Rightarrow> real \<Rightarrow> 'c ConverterRegistration list \<Rightarrow> 'c ConverterRegistration list" where
  "register_converter c p convs =
     list_insert (insert_pos_loop p 0 convs 0) \<lparr>converter = c, priority = p\<rparr> convs"

text \<open>A sequence of registrations, applied from left to right.\<close>

definition register_all ::
  "('c \<times> real) list \<Rightarrow> 'c ConverterRegistration list \<Rightarrow> 'c ConverterRegistration list" where
  "register_all xs convs = foldl (\<lambda>cs x. register_converter (fst x) (snd x) cs) convs xs"

text \<open>
  \<open>_register_converters\<close>: the built-in converters in the order of the source, each with the
  priority it is registered with. A converter whose import raises \<open>ImportError\<close> is skipped
  (\<open>importable\<close> says which imports succeed); converters are named by their class.
\<close>

definition builtin_sequence :: "(string \<times> real) list" where
  "builtin_sequence =
     [(''TextConverter'', 10.0), (''PdfConverter'', 0.0), (''DocxConverter'', 0.1),
      (''ImageConverter'', 1.0), (''HtmlConverter'', 2.0), (''AudioConverter'', 3.0)]"

definition register_converters ::
  "bool \<Rightarrow> (string \<Rightarrow> bool) \<Rightarrow> string ConverterRegistration list
     \<Rightarrow> string ConverterRegistration list" where
  "register_converters enable_builtins importable convs =
     (if \<not> enable_builtins then convs
      else register_all (filter (\<lambda>x. importable (fst x)) builtin_sequence) convs)"

lemma insert_pos_loop_takeWhile:
  "insert_pos_loop p i convs i = i + length (takeWhile (\<lambda>r. priority r \<le> p) convs)"
  by (induction convs arbitrary: i) auto

lemma list_insert_takeWhile:
  "list_insert (length (takeWhile P xs)) x xs = takeWhile P xs @ x # dropWhile P xs"
  by (simp add: list_insert_def takeWhile_eq_take[symmetric] dropWhile_eq_drop[symmetric])

lemma register_converter_split:
  "register_converter c p convs =
     takeWhile (\<lambda>r. priority r \<le> p) convs @ \<lparr>converter = c, priority = p\<rparr>
       # dropWhile (\<lambda>r. priority r \<le> p) convs"
  using insert_pos_loop_takeWhile[of p 0 convs]
  by (simp add: register_converter_def list_insert_takeWhile)

lemma register_converter_Cons:
  "register_converter c p (r # rs) =
     (if priority r \<le> p then r # register_converter c p rs
      else \<lparr>converter = c, priority = p\<rparr> # r # rs)"
  by (simp add: register_converter_split)

lemma register_converter_Nil: "register_converter c p [] = [\<lparr>converter = c, priority = p\<rparr>]"
  by (simp add: register_converter_split)

lemma set_register_converter:
  "set (register_converter c p convs) = insert \<lparr>converter = c, priority = p\<rparr> (set convs)"
  by (induction convs) (auto simp add: register_converter_Cons register_converter_Nil)

lemma sorted_register_converter:
  "sorted (map priority convs) \<Longrightarrow> sorted (map priority (register_converter c p convs))"
proof (induction convs)
  case Nil
  then show ?case by (simp add: register_converter_Nil)
next
  case (Cons r rs)
  then show ?case
    by (auto simp add: register_converter_Cons set_register_converter)
qed

lemma sorted_register_all:
  "sorted (map priority convs) \<Longrightarrow> sorted (map priority (register_all xs convs))"
  by (induction xs arbitrary: convs) (simp_all add: register_all_def sorted_register_converter)

text \<open>In a sorted registry a new entry lands behind every entry of its own priority.\<close>

lemma filter_register_converter:
  "sorted (map priority convs) \<Longrightarrow>
   filter (\<lambda>r. priority r = q) (register_converter c p convs) =
     filter (\<lambda>r. priority r = q) convs @ (if p = q then [\<lparr>converter = c, priority = p\<rparr>] else [])"
proof (induction convs)
  case Nil
  then show ?case by (simp add: register_converter_Nil)
next
  case (Cons r rs)
  show ?case
  proof (cases "priority r \<le> p")
    case True
    with Cons show ?thesis by (simp add: register_converter_Cons)
  next
    case False
    then have "\<forall>x\<in>set (r # rs). priority x \<noteq> p"
      using Cons.prems by auto
    then have "filter (\<lambda>r. priority r = p) (r # rs) = []"
      by (auto simp add: filter_empty_conv)
    with False show ?thesis by (auto simp add: register_converter_Cons)
  qed
qed

lemma filter_register_all:
  "sorted (map priority convs) \<Longrightarrow>
   map converter (filter (\<lambda>r. priority r = q) (register_all xs convs)) =
     map converter (filter (\<lambda>r. priority r = q) convs) @ map fst (filter (\<lambda>x. snd x = q) xs)"
proof (induction xs arbitrary: convs)
  case Nil
  then show ?case by (simp add: register_all_def)
next
  case (Cons x xs)
  have s: "sorted (map priority (register_converter (fst x) (snd x) convs))"
    using Cons.prems by (rule sorted_register_converter)
  have "register_all (x # xs) convs = register_all xs (register_converter (fst x) (snd x) convs)"
    by (simp add: register_all_def)
  then show ?case
    using Cons.IH[OF s] filter_register_converter[OF Cons.prems, of q "fst x" "snd x"]
    by auto
qed

lemma builtin_order:
  "map (\<lambda>r. (converter r, priority r)) (register_converters True (\<lambda>_. True) []) =
     [(''PdfConverter'', 0.0), (''DocxConverter'', 0.1), (''ImageConverter'', 1.0),
      (''HtmlConverter'', 2.0), (''AudioConverter'', 3.0), (''TextConverter'', 10.0)]"
  by (simp add: register_converters_def register_all_def builtin_sequence_def
      register_converter_Cons register_converter_Nil)

text \<open>
  Claim C5. \<open>register_converter\<close> puts the new registration immediately before the first
  existing entry with a strictly greater priority and appends it when there is none (the
  entries kept in front are the longest prefix with priorities not above the new one). A
  registry built from the empty list by any sequence of registrations is therefore sorted
  by ascending priority, and entries of equal priority stand in the order they were
  registered. The start-up sequence Text 10.0, PDF 0.0, DOCX 0.1, Image 1.0, HTML 2.0,
  Audio 3.0 ends as PDF, DOCX, Image, HTML, Audio, Text with priorities
  0.0, 0.1, 1.0, 2.0, 3.0, 10.0.
\<close>

theorem register_converter_sorted_stable:
  "register_converter c p convs =
       takeWhile (\<lambda>r. priority r \<le> p) convs @ \<lparr>converter = c, priority = p\<rparr>
         # dropWhile (\<lambda>r. priority r \<le> p) convs
   \<and> sorted (map priority (register_all xs []))
   \<and> map converter (filter (\<lambda>r. priority r = q) (register_all xs [])) =
       map fst (filter (\<lambda>x. snd x = q) xs)
   \<and> map (\<lambda>r. (converter r, priority r)) (register_converters True (\<lambda>_. True) []) =
       [(''PdfConverter'', 0.0), (''DocxConverter'', 0.1), (''ImageConverter'', 1.0),
        (''HtmlConverter'', 2.0), (''AudioConverter'', 3.0), (''TextConverter'', 10.0)]"
  using register_converter_split[of c p convs] sorted_register_all[of "[]" xs]
    filter_register_all[of "[]" q xs] builtin_order
  by simp

section \<open>Descriptor construction and file type detection (utils/file\_detector.py)\<close>

text \<open>\<open>str.split(sep)\<close> for a one-character separator, and \<open>str.rfind\<close> of a character.\<close>

fun split_on :: "char \<Rightarrow> string \<Rightarrow> string list" where
  "split_on sep [] = [[]]"
| "split_on sep (c # cs) =
     (if c = sep then [] # split_on sep cs
      else (case split_on sep cs of [] \<Rightarrow> [[c]] | p # ps \<Rightarrow> (c # p) # ps))"

definition rfind :: "char \<Rightarrow> string \<Rightarrow> nat option" where
  "rfind c s =
     (if c \<in> set s then Some (length s - 1 - length (takeWhile (\<lambda>x. x \<noteq> c) (rev s)))
      else None)"

text \<open>
  \<open>Path(filename).suffix\<close> on a POSIX system: the name is the last path component (empty
  components and single dots are dropped by the path parser), and the suffix starts at the
  last dot of the name unless that dot is the first or the last character.
\<close>

definition path_name :: "string \<Rightarrow> string" where
  "path_name s =
     (case filter (\<lambda>p. p \<noteq> [] \<and> p \<noteq> ''.'') (split_on CHR ''/'' s) of
        [] \<Rightarrow> []
      | p # ps \<Rightarrow> last (p # ps))"

definition path_suffix :: "string \<Rightarrow> string" where
  "path_suffix s =
     (let name = path_name s
      in case rfind CHR ''.'' name of
           None \<Rightarrow> []
         | Some i \<Rightarrow> if 0 < i \<and> i + 1 < length name then drop i name else [])"

text \<open>
  \<open>StreamInfo.__post_init__\<close>, applied to the fields the constructor received: a non-empty
  extension gets its leading dot, and a descriptor with a filename and no extension takes
  the lower-cased suffix of the filename.
\<close>

definition post_init :: "StreamInfo \<Rightarrow> StreamInfo" where
  "post_init self =
     (let self1 =
            (case extension self of
               Some e \<Rightarrow> if e \<noteq> [] \<and> \<not> startswith e ''.''
                         then self\<lparr>extension := Some (''.'' @ e)\<rparr> else self
             | None \<Rightarrow> self)
      in case filename self1 of
           Some f \<Rightarrow> if f \<noteq> [] \<and> \<not> truthy (extension self1)
                     then self1\<lparr>extension := Some (lower (path_suffix f))\<rparr> else self1
         | None \<Rightarrow> self1)"

text \<open>\<open>StreamInfo(mimetype=m, extension=e)\<close> with the other fields left at \<open>None\<close>.\<close>

definition StreamInfo_of :: "string option \<Rightarrow> string option \<Rightarrow> StreamInfo" where
  "StreamInfo_of m e =
     post_init \<lparr>mimetype = m, extension = e, charset = None, filename = None,
                local_path = None, url = None\<rparr>"

text \<open>
  A Python \<open>dict\<close> is an association list in insertion order with distinct keys:
  assigning to a key that is present replaces its value in place, a new key goes to the end.
\<close>

fun dict_set :: "'k \<Rightarrow> 'v \<Rightarrow> ('k \<times> 'v) list \<Rightarrow> ('k \<times> 'v) list" where
  "dict_set k v [] = [(k, v)]"
| "dict_set k v (kv # kvs) = (if fst kv = k then (k, v) # kvs else kv # dict_set k v kvs)"

text \<open>The extension table of \<open>FileTypeDetector.__init__\<close>.\<close>

definition extension_mapping :: "(string \<times> string) list" where
  "extension_mapping =
     [(''.pdf'', ''application/pdf''),
      (''.docx'', ''application/vnd.openxmlformats-officedocument.wordprocessingml.document''),
      (''.doc'', ''application/msword''),
      (''.pptx'', ''application/vnd.openxmlformats-officedocument.presentationml.presentation''),
      (''.ppt'', ''application/vnd.ms-powerpoint''),
      (''.xlsx'', ''application/vnd.openxmlformats-officedocument.spreadsheetml.sheet''),
      (''.xls'', ''application/vnd.ms-excel''),
      (''.jpg'', ''image/jpeg''),
      (''.jpeg'', ''image/jpeg''),
      (''.png'', ''image/png''),
      (''.gif'', ''image/gif''),
      (''.bmp'', ''image/bmp''),
      (''.tiff'', ''image/tiff''),
      (''.webp'', ''image/webp''),
      (''.mp3'', ''audio/mpeg''),
      (''.wav'', ''audio/wav''),
      (''.m4a'', ''audio/mp4''),
      (''.flac'', ''audio/flac''),
      (''.ogg'', ''audio/ogg''),
      (''.html'', ''text/html''),
      (''.htm'', ''text/html''),
      (''.xml'', ''application/xml''),
      (''.json'', ''application/json''),
      (''.csv'', ''text/csv''),
      (''.txt'', ''text/plain''),
      (''.md'', ''text/markdown''),
      (''.rtf'', ''application/rtf''),
      (''.epub'', ''application/epub+zip''),
      (''.zip'', ''application/zip''),
      (''.tar'', ''application/x-tar''),
      (''.gz'', ''application/gzip''),
      (''.7z'', ''application/x-7z-compressed''),
      (''.rar'', ''application/x-rar-compressed''),
      (''.msg'', ''application/vnd.ms-outlook''),
      (''.eml'', ''message/rfc822''),
      (''.ipynb'', ''application/x-ipynb+json''),
      (''.hwp'', ''application/haansofthwp''),
      (''.hwpx'', ''application/haansofthwp'')]"

text \<open>The reverse mapping \<open>{v: k for k, v in self.extension_mapping.items()}\<close>.\<close>

definition mimetype_mapping :: "(string \<times> string) list" where
  "mimetype_mapping = foldl (\<lambda>d kv. dict_set (snd kv) (fst kv) d) [] extension_mapping"

definition detect_from_extension :: "string \<Rightarrow> StreamInfo option" where
  "detect_from_extension extension0 =
     (let extension1 = (if \<not> startswith extension0 ''.'' then ''.'' @ extension0 else extension0);
          extension2 = lower extension1
      in case map_of extension_mapping extension2 of
           Some mimetype' \<Rightarrow> Some (StreamInfo_of (Some mimetype') (Some extension2))
         | None \<Rightarrow> None)"

text \<open>
  \<open>detect_from_mimetype\<close>: the exact lookup, then the first entry of the reverse mapping
  whose major type (\<open>mime.split('/')[0]\<close>) is a prefix of the argument, then a descriptor
  with the MIME type alone.
\<close>

definition detect_from_mimetype :: "string \<Rightarrow> StreamInfo" where
  "detect_from_mimetype mimetype' =
     (if truthy (map_of mimetype_mapping mimetype')
      then StreamInfo_of (Some mimetype') (map_of mimetype_mapping mimetype')
      else (case find (\<lambda>me. startswith mimetype' (takeWhile (\<lambda>c. c \<noteq> CHR ''/'') (fst me)))
                   mimetype_mapping of
              Some me \<Rightarrow> StreamInfo_of (Some mimetype') (Some (snd me))
            | None \<Rightarrow> StreamInfo_of (Some mimetype') None))"

text \<open>The reverse mapping, computed: a MIME type shared by two extensions keeps the
  position of its first key and the extension of its last.\<close>

lemma mimetype_mapping_eq [code]:
  "mimetype_mapping =
     [(''application/pdf'', ''.pdf''),
      (''application/vnd.openxmlformats-officedocument.wordprocessingml.document'', ''.docx''),
      (''application/msword'', ''.doc''),
      (''application/vnd.openxmlformats-officedocument.presentationml.presentation'', ''.pptx''),
      (''application/vnd.ms-powerpoint'', ''.ppt''),
      (''application/vnd.openxmlformats-officedocument.spreadsheetml.sheet'', ''.xlsx''),
      (''application/vnd.ms-excel'', ''.xls''),
      (''image/jpeg'', ''.jpeg''),
      (''image/png'', ''.png''),
      (''image/gif'', ''.gif''),
      (''image/bmp'', ''.bmp''),
      (''image/tiff'', ''.tiff''),
      (''image/webp'', ''.webp''),
      (''audio/mpeg'', ''.mp3''),
      (''audio/wav'', ''.wav''),
      (''audio/mp4'', ''.m4a''),
      (''audio/flac'', ''.flac''),
      (''audio/ogg'', ''.ogg''),
      (''text/html'', ''.htm''),
      (''application/xml'', ''.xml''),
      (''application/json'', ''.json''),
      (''text/csv'', ''.csv''),
      (''text/plain'', ''.txt''),
      (''text/markdown'', ''.md''),
      (''application/rtf'', ''.rtf''),
      (''application/epub+zip'', ''.epub''),
      (''application/zip'', ''.zip''),
      (''application/x-tar'', ''.tar''),
      (''application/gzip'', ''.gz''),
      (''application/x-7z-compressed'', ''.7z''),
      (''application/x-rar-compressed'', ''.rar''),
      (''application/vnd.ms-outlook'', ''.msg''),
      (''message/rfc822'', ''.eml''),
      (''application/x-ipynb+json'', ''.ipynb''),
      (''application/haansofthwp'', ''.hwpx'')]"
  by code_simp

lemma detect_from_extension_table:
  "list_all (\<lambda>kv. map_option mimetype (detect_from_extension (fst kv)) = Some (Some (snd kv)))
     extension_mapping"
  by code_simp

lemma detect_from_mimetype_table:
  "list_all (\<lambda>kv. extension (detect_from_mimetype (snd kv)) =
        Some (if fst kv = ''.jpg'' then ''.jpeg'' else if fst kv = ''.html'' then ''.htm''
              else if fst kv = ''.hwp'' then ''.hwpx'' else fst kv))
     extension_mapping"
  by code_simp

text \<open>
  Claim C2 (as amended). For every extension key of the built-in table,
  \<open>detect_from_extension\<close> returns a descriptor whose MIME type is the table's value for that
  key, and \<open>detect_from_mimetype\<close> on that MIME type returns a descriptor whose extension is
  the original key, except for the three keys whose MIME type is listed again further down
  the table: for \<open>.jpg\<close>, \<open>.html\<close> and \<open>.hwp\<close> the reverse lookup returns \<open>.jpeg\<close>,
  \<open>.htm\<close> and \<open>.hwpx\<close>.
\<close>

theorem detect_round_trip_last_key:
  "\<forall>(ext, mime) \<in> set extension_mapping.
      map_option mimetype (detect_from_extension ext) = Some (Some mime)
    \<and> extension (detect_from_mimetype mime) =
        Some (if ext = ''.jpg'' then ''.jpeg'' else if ext = ''.html'' then ''.htm''
              else if ext = ''.hwp'' then ''.hwpx'' else ext)"
  using detect_from_extension_table detect_from_mimetype_table
  unfolding list_all_iff by fastforce

theorem detect_round_trip_last_key_witness:
  "(''.pdf'', ''application/pdf'') \<in> set extension_mapping
   \<and> map_option mimetype (detect_from_extension ''.pdf'') = Some (Some ''application/pdf'')
   \<and> extension (detect_from_mimetype ''application/pdf'') = Some ''.pdf''"
proof -
  have m: "(''.pdf'', ''application/pdf'') \<in> set extension_mapping"
    by (simp add: extension_mapping_def)
  from bspec[OF detect_round_trip_last_key m] m show ?thesis by simp
qed

text \<open>
  Claim C2 as stated fails at the key \<open>.jpg\<close>: it is in the table with the MIME type
  \<open>image/jpeg\<close>, \<open>detect_from_extension\<close> reports that MIME type, and the reverse lookup of
  \<open>image/jpeg\<close> does not give \<open>.jpg\<close> back.
\<close>

theorem detect_round_trip_jpg_counterexample:
  "(''.jpg'', ''image/jpeg'') \<in> set extension_mapping
   \<and> map_option mimetype (detect_from_extension ''.jpg'') = Some (Some ''image/jpeg'')
   \<and> extension (detect_from_mimetype ''image/jpeg'') \<noteq> Some ''.jpg''"
  by code_simp

section \<open>The conversion attempt loop (core/markitdown.py)\<close>

text \<open>
  Document text (Markdown, titles) is a Python \<open>str\<close> whose characters matter one by one; it
  is modelled as the list of its Unicode code points.
\<close>

type_synonym ustr = "nat list"

datatype meta_value = MetaInt int | MetaStr string | MetaStat real

record DocumentConverterResult =
  markdown :: ustr
  title :: "ustr option"
  metadata :: "(string \<times> meta_value) list"

text \<open>The exception classes of core/exceptions.py, each carrying its message.\<close>

datatype exn =
    MarkItDownException string
  | UnsupportedFormatException string
  | FileConversionException string
  | MissingDependencyException string

text \<open>
  A converter as the engine sees it: its class name and its two operations. Both run on the
  shared stream (state \<open>'s\<close>, which they may move) and either return or raise; a raised
  exception is \<open>Inl\<close> of its text \<open>str(e)\<close>.
\<close>

record 's DocumentConverter =
  class_name :: string
  accepts :: "'s \<Rightarrow> StreamInfo \<Rightarrow> (string + bool) \<times> 's"
  convert :: "'s \<Rightarrow> StreamInfo \<Rightarrow> (string + DocumentConverterResult) \<times> 's"

text \<open>The engine state the loop reads: the option \<open>self._options['korean_optimization']\<close> and
  the attribute \<open>self.enable_korean_support\<close>.\<close>

record engine_options =
  opt_korean_optimization :: bool
  opt_enable_korean_support :: bool

text \<open>
  \<open>_apply_korean_optimization\<close>; \<open>normalize_korean_spacing\<close> of utils/format\_utils.py is
  the parameter \<open>nks\<close>, so that every statement about the loop holds whatever it computes.
\<close>

definition apply_korean_optimization ::
  "(ustr \<Rightarrow> ustr) \<Rightarrow> engine_options \<Rightarrow> DocumentConverterResult \<Rightarrow> DocumentConverterResult" where
  "apply_korean_optimization nks opts result =
     (if \<not> opt_enable_korean_support opts then result
      else \<lparr>markdown = nks (markdown result), title = title result,
            metadata = metadata result\<rparr>)"

datatype attempt_outcome = Rejected | Raised string | Converted DocumentConverterResult

text \<open>
  The body of the \<open>try\<close> block for one converter and one descriptor: \<open>accepts\<close>, then
  \<open>convert\<close>, then the optional post-processing. \<open>Raised e\<close> is the \<open>except Exception as e\<close>
  branch with \<open>str(e) = e\<close>.
\<close>

definition attempt ::
  "(ustr \<Rightarrow> ustr) \<Rightarrow> engine_options \<Rightarrow> 's DocumentConverter \<Rightarrow> 's \<Rightarrow> StreamInfo
     \<Rightarrow> attempt_outcome \<times> 's" where
  "attempt nks opts conv st si =
     (case accepts conv st si of
        (Inl e, st1) \<Rightarrow> (Raised e, st1)
      | (Inr False, st1) \<Rightarrow> (Rejected, st1)
      | (Inr True, st1) \<Rightarrow>
          (case convert conv st1 si of
             (Inl e, st2) \<Rightarrow> (Raised e, st2)
           | (Inr result, st2) \<Rightarrow>
               (Converted (if opt_korean_optimization opts
                           then apply_korean_optimization nks opts result else result), st2)))"

record failed_attempt =
  fa_converter :: string
  fa_stream_info :: StreamInfo
  fa_error :: string

datatype 's loop_result =
    Returned DocumentConverterResult
  | Exhausted 's "failed_attempt list"

text \<open>The inner loop \<open>for converter_reg in self._converters\<close> for one descriptor.\<close>

fun try_converters ::
  "(ustr \<Rightarrow> ustr) \<Rightarrow> engine_options \<Rightarrow> StreamInfo \<Rightarrow> 's DocumentConverter ConverterRegistration list
     \<Rightarrow> 's \<Rightarrow> failed_attempt list \<Rightarrow> 's loop_result" where
  "try_converters nks opts si [] st failed = Exhausted st failed"
| "try_converters nks opts si (reg # regs) st failed =
     (case attempt nks opts (converter reg) st si of
        (Converted result, st') \<Rightarrow> Returned result
      | (Rejected, st') \<Rightarrow> try_converters nks opts si regs st' failed
      | (Raised e, st') \<Rightarrow>
          try_converters nks opts si regs st'
            (failed @ [\<lparr>fa_converter = class_name (converter reg), fa_stream_info = si,
                         fa_error = e\<rparr>]))"

text \<open>The outer loop \<open>for stream_info in stream_info_guesses\<close>.\<close>

fun convert_loop ::
  "(ustr \<Rightarrow> ustr) \<Rightarrow> engine_options \<Rightarrow> 's DocumentConverter ConverterRegistration list
     \<Rightarrow> StreamInfo list \<Rightarrow> 's \<Rightarrow> failed_attempt list \<Rightarrow> 's loop_result" where
  "convert_loop nks opts convs [] st failed = Exhausted st failed"
| "convert_loop nks opts convs (si # sis) st failed =
     (case try_converters nks opts si convs st failed of
        Returned result \<Rightarrow> Returned result
      | Exhausted st' failed' \<Rightarrow> convert_loop nks opts convs sis st' failed')"

text \<open>\<open>sep.join(parts)\<close>, \<open>StreamInfo.__str__\<close>, and the \<open>repr\<close> of the values the message
  formats. \<open>repr\<close> of a \<open>str\<close> (its quoting and escaping) is the parameter \<open>R\<close>; lists,
  dicts, \<open>None\<close> and the dataclass are laid out as Python lays them out.\<close>

fun join :: "'a list \<Rightarrow> 'a list list \<Rightarrow> 'a list" where
  "join sep [] = []"
| "join sep [x] = x"
| "join sep (x # y # ys) = x @ sep @ join sep (y # ys)"

definition StreamInfo_str :: "StreamInfo \<Rightarrow> string" where
  "StreamInfo_str self =
     ''StreamInfo('' @
       join '', ''
         ((case mimetype self of Some m \<Rightarrow> if m \<noteq> [] then [''mimetype='' @ m] else []
            | None \<Rightarrow> []) @
          (case extension self of Some e \<Rightarrow> if e \<noteq> [] then [''ext='' @ e] else []
            | None \<Rightarrow> []) @
          (case filename self of Some f \<Rightarrow> if f \<noteq> [] then [''filename='' @ f] else []
            | None \<Rightarrow> []))
     @ '')''"

definition repr_list :: "string list \<Rightarrow> string" where
  "repr_list xs = ''['' @ join '', '' xs @ '']''"

definition repr_opt :: "(string \<Rightarrow> string) \<Rightarrow> string option \<Rightarrow> string" where
  "repr_opt R x = (case x of None \<Rightarrow> ''None'' | Some s \<Rightarrow> R s)"

definition StreamInfo_repr :: "(string \<Rightarrow> string) \<Rightarrow> StreamInfo \<Rightarrow> string" where
  "StreamInfo_repr R self =
     ''StreamInfo(mimetype='' @ repr_opt R (mimetype self) @
     '', extension='' @ repr_opt R (extension self) @
     '', charset='' @ repr_opt R (charset self) @
     '', filename='' @ repr_opt R (filename self) @
     '', local_path='' @ repr_opt R (local_path self) @
     '', url='' @ repr_opt R (url self) @ '')''"

definition failed_attempt_repr :: "(string \<Rightarrow> string) \<Rightarrow> failed_attempt \<Rightarrow> string" where
  "failed_attempt_repr R a =
     ''{'' @ R ''converter'' @ '': '' @ R (fa_converter a) @ '', '' @
     R ''stream_info'' @ '': '' @ StreamInfo_repr R (fa_stream_info a) @ '', '' @
     R ''error'' @ '': '' @ R (fa_error a) @ ''}''"

text \<open>The message of the final \<open>UnsupportedFormatException\<close>. The source writes the line
  break before \<open>Failed attempts\<close> as a backslash followed by the letter n.\<close>

definition error_msg :: "(string \<Rightarrow> string) \<Rightarrow> StreamInfo list \<Rightarrow> failed_attempt list \<Rightarrow> string" where
  "error_msg R stream_info_guesses failed_attempts =
     ''No suitable converter found for stream'' @
     (if stream_info_guesses \<noteq> []
      then '' (guessed types: '' @ repr_list (map (\<lambda>si. R (StreamInfo_str si)) stream_info_guesses)
           @ '')''
      else []) @
     (if failed_attempts \<noteq> []
      then [CHR 0x5C] @ ''nFailed attempts: '' @
           repr_list (map (failed_attempt_repr R) failed_attempts)
      else [])"

definition convert_with_guesses ::
  "(string \<Rightarrow> string) \<Rightarrow> (ustr \<Rightarrow> ustr) \<Rightarrow> engine_options
     \<Rightarrow> 's DocumentConverter ConverterRegistration list \<Rightarrow> 's \<Rightarrow> StreamInfo list
     \<Rightarrow> exn + DocumentConverterResult" where
  "convert_with_guesses R nks opts convs st stream_info_guesses =
     (case convert_loop nks opts convs stream_info_guesses st [] of
        Returned result \<Rightarrow> Inr result
      | Exhausted st' failed_attempts \<Rightarrow>
          Inl (UnsupportedFormatException (error_msg R stream_info_guesses failed_attempts)))"

text \<open>
  The claim's reading of the loop, for converters whose outcome does not depend on where the
  stream stands: the attempts in the order the loops make them, the first conversion among
  them, and the failures recorded along the way.
\<close>

definition attempts_in_order :: "'c list \<Rightarrow> StreamInfo list \<Rightarrow> ('c \<times> StreamInfo) list" where
  "attempts_in_order convs stream_info_guesses =
     concat (map (\<lambda>si. map (\<lambda>reg. (reg, si)) convs) stream_info_guesses)"

fun outcome_result :: "attempt_outcome \<Rightarrow> DocumentConverterResult option" where
  "outcome_result (Converted r) = Some r"
| "outcome_result Rejected = None"
| "outcome_result (Raised e) = None"

fun outcome_failure :: "string \<Rightarrow> StreamInfo \<Rightarrow> attempt_outcome \<Rightarrow> failed_attempt list" where
  "outcome_failure n si (Raised e) = [\<lparr>fa_converter = n, fa_stream_info = si, fa_error = e\<rparr>]"
| "outcome_failure n si Rejected = []"
| "outcome_failure n si (Converted r) = []"

fun first_result ::
  "('c \<Rightarrow> StreamInfo \<Rightarrow> attempt_outcome) \<Rightarrow> ('c \<times> StreamInfo) list
     \<Rightarrow> DocumentConverterResult option" where
  "first_result out [] = None"
| "first_result out (x # xs) =
     (case outcome_result (out (fst x) (snd x)) of
        Some r \<Rightarrow> Some r
      | None \<Rightarrow> first_result out xs)"

definition recorded_failures ::
  "('s DocumentConverter ConverterRegistration \<Rightarrow> StreamInfo \<Rightarrow> attempt_outcome)
     \<Rightarrow> ('s DocumentConverter ConverterRegistration \<times> StreamInfo) list \<Rightarrow> failed_attempt list" where
  "recorded_failures out xs =
     concat (map (\<lambda>x. outcome_failure (class_name (converter (fst x))) (snd x)
                          (out (fst x) (snd x))) xs)"

fun erase :: "'s loop_result \<Rightarrow> DocumentConverterResult + failed_attempt list" where
  "erase (Returned r) = Inl r"
| "erase (Exhausted st failed) = Inr failed"

text \<open>
  Two sample converters for a run of the loop: \<open>A\<close>, whose \<open>accepts\<close> raises \<open>boom\<close>,
  and \<open>B\<close>, which accepts and whose \<open>convert\<close> raises \<open>bad\<close>; a descriptor with an
  unknown extension; and a stand-in for \<open>repr\<close> of a string.
\<close>

definition conv_A :: "nat DocumentConverter" where
  "conv_A = \<lparr>class_name = ''A'', accepts = (\<lambda>st si. (Inl ''boom'', st)),
             convert = (\<lambda>st si. (Inl ''unused'', st))\<rparr>"

definition conv_B :: "nat DocumentConverter" where
  "conv_B = \<lparr>class_name = ''B'', accepts = (\<lambda>st si. (Inr True, st)),
             convert = (\<lambda>st si. (Inl ''bad'', Suc st))\<rparr>"

definition guess_xyz :: StreamInfo where
  "guess_xyz = \<lparr>mimetype = None, extension = Some ''.xyz'', charset = None, filename = None,
                local_path = None, url = None\<rparr>"

definition quoted :: "string \<Rightarrow> string" where
  "quoted s = [CHR 0x27] @ s @ [CHR 0x27]"

lemma sublist_join: "x \<in> set xs \<Longrightarrow> sublist x (join sep xs)"
proof (induction sep xs rule: join.induct)
  case (1 sep)
  then show ?case by simp
next
  case (2 sep x)
  then show ?case by simp
next
  case (3 sep x y ys)
  then show ?case
    by (auto simp add: sublist_append intro: sublist_appendI)
qed

lemma sublist_repr_list: "x \<in> set xs \<Longrightarrow> sublist x (repr_list xs)"
  unfolding repr_list_def
  by (metis sublist_join sublist_appendI sublist_order.order_trans sublist_append_rightI)

lemma error_msg_guesses:
  assumes "si \<in> set guesses"
  shows "sublist (R (StreamInfo_str si)) (error_msg R guesses failed)"
proof -
  have ne: "guesses \<noteq> []" using assms by auto
  have "R (StreamInfo_str si) \<in> set (map (\<lambda>si. R (StreamInfo_str si)) guesses)"
    using assms by auto
  then have "sublist (R (StreamInfo_str si)) (repr_list (map (\<lambda>si. R (StreamInfo_str si)) guesses))"
    by (rule sublist_repr_list)
  then obtain a b where
    "repr_list (map (\<lambda>si. R (StreamInfo_str si)) guesses) = a @ R (StreamInfo_str si) @ b"
    by (auto simp add: sublist_def)
  then have "error_msg R guesses failed =
      (''No suitable converter found for stream'' @ '' (guessed types: '' @ a)
        @ R (StreamInfo_str si)
        @ (b @ '')'' @ (if failed \<noteq> []
             then [CHR 0x5C] @ ''nFailed attempts: '' @ repr_list (map (failed_attempt_repr R) failed)
             else []))"
    using ne by (simp add: error_msg_def)
  then show ?thesis unfolding sublist_def by blast
qed

lemma error_msg_failed:
  assumes "a \<in> set failed"
  shows "sublist (failed_attempt_repr R a) (error_msg R guesses failed)"
proof -
  have ne: "failed \<noteq> []" using assms by auto
  have "failed_attempt_repr R a \<in> set (map (failed_attempt_repr R) failed)"
    using assms by auto
  then have "sublist (failed_attempt_repr R a) (repr_list (map (failed_attempt_repr R) failed))"
    by (rule sublist_repr_list)
  then obtain u v where
    "repr_list (map (failed_attempt_repr R) failed) = u @ failed_attempt_repr R a @ v"
    by (auto simp add: sublist_def)
  then have "error_msg R guesses failed =
      (''No suitable converter found for stream'' @
        (if guesses \<noteq> []
         then '' (guessed types: '' @ repr_list (map (\<lambda>si. R (StreamInfo_str si)) guesses) @ '')''
         else []) @ [CHR 0x5C] @ ''nFailed attempts: '' @ u)
        @ failed_attempt_repr R a @ v"
    using ne by (simp add: error_msg_def)
  then show ?thesis unfolding sublist_def by blast
qed

lemma first_result_append:
  "first_result out (xs @ ys) =
     (case first_result out xs of Some r \<Rightarrow> Some r | None \<Rightarrow> first_result out ys)"
  by (induction xs) (auto split: option.splits)

lemma recorded_failures_append:
  "recorded_failures out (xs @ ys) = recorded_failures out xs @ recorded_failures out ys"
  by (simp add: recorded_failures_def)

lemma try_converters_erase:
  assumes "\<forall>reg\<in>set regs. \<forall>s. fst (attempt nks opts (converter reg) s si) = out reg si"
  shows "erase (try_converters nks opts si regs st failed) =
     (case first_result out (map (\<lambda>reg. (reg, si)) regs) of
        Some r \<Rightarrow> Inl r
      | None \<Rightarrow> Inr (failed @ recorded_failures out (map (\<lambda>reg. (reg, si)) regs)))"
  using assms
proof (induction regs arbitrary: st failed)
  case Nil
  then show ?case by (simp add: recorded_failures_def)
next
  case (Cons reg regs)
  obtain oc st' where a: "attempt nks opts (converter reg) st si = (oc, st')"
    by (cases "attempt nks opts (converter reg) st si")
  have o: "out reg si = oc"
    using Cons.prems a by (metis fst_conv list.set_intros(1))
  have ih: "\<And>st failed. erase (try_converters nks opts si regs st failed) =
     (case first_result out (map (\<lambda>reg. (reg, si)) regs) of
        Some r \<Rightarrow> Inl r
      | None \<Rightarrow> Inr (failed @ recorded_failures out (map (\<lambda>reg. (reg, si)) regs)))"
    using Cons.IH Cons.prems by simp
  show ?case
    by (cases oc) (simp_all add: a o ih recorded_failures_def split: option.splits)
qed

lemma convert_loop_erase:
  assumes "\<forall>reg\<in>set convs. \<forall>si\<in>set sis. \<forall>s.
             fst (attempt nks opts (converter reg) s si) = out reg si"
  shows "erase (convert_loop nks opts convs sis st failed) =
     (case first_result out (attempts_in_order convs sis) of
        Some r \<Rightarrow> Inl r
      | None \<Rightarrow> Inr (failed @ recorded_failures out (attempts_in_order convs sis)))"
  using assms
proof (induction sis arbitrary: st failed)
  case Nil
  then show ?case by (simp add: attempts_in_order_def recorded_failures_def)
next
  case (Cons si sis)
  have inner: "\<And>st failed. erase (try_converters nks opts si convs st failed) =
     (case first_result out (map (\<lambda>reg. (reg, si)) convs) of
        Some r \<Rightarrow> Inl r
      | None \<Rightarrow> Inr (failed @ recorded_failures out (map (\<lambda>reg. (reg, si)) convs)))"
    using Cons.prems by (intro try_converters_erase) simp
  have ih: "\<And>st failed. erase (convert_loop nks opts convs sis st failed) =
     (case first_result out (attempts_in_order convs sis) of
        Some r \<Rightarrow> Inl r
      | None \<Rightarrow> Inr (failed @ recorded_failures out (attempts_in_order convs sis)))"
    using Cons.IH Cons.prems by simp
  have split: "attempts_in_order convs (si # sis) =
      map (\<lambda>reg. (reg, si)) convs @ attempts_in_order convs sis"
    by (simp add: attempts_in_order_def)
  show ?case
  proof (cases "try_converters nks opts si convs st failed")
    case (Returned r)
    with inner[of st failed] show ?thesis
      by (simp add: split first_result_append split: option.splits)
  next
    case (Exhausted st' failed')
    with inner[of st failed] show ?thesis
      by (simp add: split first_result_append recorded_failures_append ih split: option.splits)
  qed
qed

lemma convert_with_guesses_erase:
  "convert_with_guesses R nks opts convs st guesses =
     (case erase (convert_loop nks opts convs guesses st []) of
        Inl r \<Rightarrow> Inr r
      | Inr failed \<Rightarrow> Inl (UnsupportedFormatException (error_msg R guesses failed)))"
  by (cases "convert_loop nks opts convs guesses st []") (simp_all add: convert_with_guesses_def)

lemma try_converters_raised:
  assumes "fst (accepts (converter reg) st si) = Inl e \<or>
           (fst (accepts (converter reg) st si) = Inr True \<and>
            fst (convert (converter reg) (snd (accepts (converter reg) st si)) si) = Inl e)"
  shows "\<exists>st1. try_converters nks opts si (reg # regs) st failed =
           try_converters nks opts si regs st1
             (failed @ [\<lparr>fa_converter = class_name (converter reg), fa_stream_info = si,
                          fa_error = e\<rparr>])"
proof -
  obtain a st1 where acc: "accepts (converter reg) st si = (a, st1)"
    by (cases "accepts (converter reg) st si")
  obtain c st2 where cv: "convert (converter reg) st1 si = (c, st2)"
    by (cases "convert (converter reg) st1 si")
  from assms acc cv have "fst (attempt nks opts (converter reg) st si) = Raised e"
    by (auto simp add: attempt_def)
  then obtain st' where "attempt nks opts (converter reg) st si = (Raised e, st')"
    by (cases "attempt nks opts (converter reg) st si") simp
  then show ?thesis by auto
qed

lemma convert_with_guesses_first_result:
  assumes "\<forall>reg\<in>set convs. \<forall>si\<in>set guesses. \<forall>s.
             fst (attempt nks opts (converter reg) s si) = out reg si"
  shows "convert_with_guesses R nks opts convs st guesses =
          (case first_result out (attempts_in_order convs guesses) of
             Some r \<Rightarrow> Inr r
           | None \<Rightarrow> Inl (UnsupportedFormatException
               (error_msg R guesses (recorded_failures out (attempts_in_order convs guesses)))))"
  using assms
  by (simp add: convert_with_guesses_erase convert_loop_erase[where out = out]
      split: option.splits)

lemma failed_attempt_repr_converter:
  "sublist (R ''converter'' @ '': '' @ R (fa_converter a)) (failed_attempt_repr R a)"
proof -
  have "failed_attempt_repr R a =
      ''{'' @ (R ''converter'' @ '': '' @ R (fa_converter a)) @
      ('', '' @ R ''stream_info'' @ '': '' @ StreamInfo_repr R (fa_stream_info a) @ '', '' @
       R ''error'' @ '': '' @ R (fa_error a) @ ''}'')"
    by (simp add: failed_attempt_repr_def)
  then show ?thesis by (simp only: sublist_appendI)
qed

lemma failed_attempt_repr_stream_info:
  "sublist (R ''stream_info'' @ '': '' @ StreamInfo_repr R (fa_stream_info a))
     (failed_attempt_repr R a)"
proof -
  have "failed_attempt_repr R a =
      (''{'' @ R ''converter'' @ '': '' @ R (fa_converter a) @ '', '') @
      (R ''stream_info'' @ '': '' @ StreamInfo_repr R (fa_stream_info a)) @
      ('', '' @ R ''error'' @ '': '' @ R (fa_error a) @ ''}'')"
    by (simp add: failed_attempt_repr_def)
  then show ?thesis by (simp only: sublist_appendI)
qed

lemma failed_attempt_repr_error:
  "sublist (R ''error'' @ '': '' @ R (fa_error a)) (failed_attempt_repr R a)"
proof -
  have "failed_attempt_repr R a =
      (''{'' @ R ''converter'' @ '': '' @ R (fa_converter a) @ '', '' @
       R ''stream_info'' @ '': '' @ StreamInfo_repr R (fa_stream_info a) @ '', '') @
      (R ''error'' @ '': '' @ R (fa_error a)) @ ''}''"
    by (simp add: failed_attempt_repr_def)
  then show ?thesis by (simp only: sublist_appendI)
qed

lemma StreamInfo_repr_fields:
  "sublist (''mimetype='' @ repr_opt R (mimetype si)) (StreamInfo_repr R si)
   \<and> sublist (''extension='' @ repr_opt R (extension si)) (StreamInfo_repr R si)
   \<and> sublist (''charset='' @ repr_opt R (charset si)) (StreamInfo_repr R si)
   \<and> sublist (''filename='' @ repr_opt R (filename si)) (StreamInfo_repr R si)
   \<and> sublist (''local_path='' @ repr_opt R (local_path si)) (StreamInfo_repr R si)
   \<and> sublist (''url='' @ repr_opt R (url si)) (StreamInfo_repr R si)"
proof -
  let ?m = "''mimetype='' @ repr_opt R (mimetype si)"
  let ?e = "''extension='' @ repr_opt R (extension si)"
  let ?c = "''charset='' @ repr_opt R (charset si)"
  let ?f = "''filename='' @ repr_opt R (filename si)"
  let ?l = "''local_path='' @ repr_opt R (local_path si)"
  let ?u = "''url='' @ repr_opt R (url si)"
  have m: "StreamInfo_repr R si =
      ''StreamInfo('' @ ?m @ ('', '' @ ?e @ '', '' @ ?c @ '', '' @ ?f @ '', '' @ ?l @ '', '' @ ?u @ '')'')"
    by (simp add: StreamInfo_repr_def)
  have e: "StreamInfo_repr R si =
      (''StreamInfo('' @ ?m @ '', '') @ ?e @ ('', '' @ ?c @ '', '' @ ?f @ '', '' @ ?l @ '', '' @ ?u @ '')'')"
    by (simp add: StreamInfo_repr_def)
  have c: "StreamInfo_repr R si =
      (''StreamInfo('' @ ?m @ '', '' @ ?e @ '', '') @ ?c @ ('', '' @ ?f @ '', '' @ ?l @ '', '' @ ?u @ '')'')"
    by (simp add: StreamInfo_repr_def)
  have f: "StreamInfo_repr R si =
      (''StreamInfo('' @ ?m @ '', '' @ ?e @ '', '' @ ?c @ '', '') @ ?f @ ('', '' @ ?l @ '', '' @ ?u @ '')'')"
    by (simp add: StreamInfo_repr_def)
  have l: "StreamInfo_repr R si =
      (''StreamInfo('' @ ?m @ '', '' @ ?e @ '', '' @ ?c @ '', '' @ ?f @ '', '') @ ?l @ ('', '' @ ?u @ '')'')"
    by (simp add: StreamInfo_repr_def)
  have u: "StreamInfo_repr R si =
      (''StreamInfo('' @ ?m @ '', '' @ ?e @ '', '' @ ?c @ '', '' @ ?f @ '', '' @ ?l @ '', '') @ ?u @ '')''"
    by (simp add: StreamInfo_repr_def)
  have "sublist ?m (StreamInfo_repr R si)" by (simp only: m sublist_appendI)
  moreover have "sublist ?e (StreamInfo_repr R si)" by (simp only: e sublist_appendI)
  moreover have "sublist ?c (StreamInfo_repr R si)" by (simp only: c sublist_appendI)
  moreover have "sublist ?f (StreamInfo_repr R si)" by (simp only: f sublist_appendI)
  moreover have "sublist ?l (StreamInfo_repr R si)" by (simp only: l sublist_appendI)
  moreover have "sublist ?u (StreamInfo_repr R si)" by (simp only: u sublist_appendI)
  ultimately show ?thesis by blast
qed

lemma StreamInfo_str_parts:
  assumes "p \<in> set
     ((case mimetype self of Some m \<Rightarrow> if m \<noteq> [] then [''mimetype='' @ m] else []
        | None \<Rightarrow> []) @
      (case extension self of Some e \<Rightarrow> if e \<noteq> [] then [''ext='' @ e] else []
        | None \<Rightarrow> []) @
      (case filename self of Some f \<Rightarrow> if f \<noteq> [] then [''filename='' @ f] else []
        | None \<Rightarrow> []))"
  shows "sublist p (StreamInfo_str self)"
proof -
  from sublist_join[OF assms, of "'', ''"] obtain u v where
    "join '', ''
       ((case mimetype self of Some m \<Rightarrow> if m \<noteq> [] then [''mimetype='' @ m] else []
          | None \<Rightarrow> []) @
        (case extension self of Some e \<Rightarrow> if e \<noteq> [] then [''ext='' @ e] else []
          | None \<Rightarrow> []) @
        (case filename self of Some f \<Rightarrow> if f \<noteq> [] then [''filename='' @ f] else []
          | None \<Rightarrow> [])) = u @ p @ v"
    unfolding sublist_def by blast
  then have "StreamInfo_str self = (''StreamInfo('' @ u) @ p @ (v @ '')'')"
    by (simp add: StreamInfo_str_def)
  then show ?thesis by (simp only: sublist_appendI)
qed

lemma StreamInfo_str_fields:
  "(\<forall>m. mimetype self = Some m \<and> m \<noteq> [] \<longrightarrow> sublist (''mimetype='' @ m) (StreamInfo_str self))
   \<and> (\<forall>e. extension self = Some e \<and> e \<noteq> [] \<longrightarrow> sublist (''ext='' @ e) (StreamInfo_str self))
   \<and> (\<forall>f. filename self = Some f \<and> f \<noteq> [] \<longrightarrow> sublist (''filename='' @ f) (StreamInfo_str self))"
  by (auto intro!: StreamInfo_str_parts)

lemma error_msg_failed_fields:
  assumes "a \<in> set failed"
  shows "sublist (R ''converter'' @ '': '' @ R (fa_converter a)) (error_msg R guesses failed)
       \<and> sublist (R ''stream_info'' @ '': '' @ StreamInfo_repr R (fa_stream_info a))
           (error_msg R guesses failed)
       \<and> sublist (R ''error'' @ '': '' @ R (fa_error a)) (error_msg R guesses failed)"
  using error_msg_failed[OF assms, of R guesses]
    failed_attempt_repr_converter[of R a] failed_attempt_repr_stream_info[of R a]
    failed_attempt_repr_error[of R a]
  by (meson sublist_order.order_trans)

lemma error_msg_failed_descriptor:
  assumes "a \<in> set failed"
  shows "sublist (''mimetype='' @ repr_opt R (mimetype (fa_stream_info a)))
           (error_msg R guesses failed)
       \<and> sublist (''extension='' @ repr_opt R (extension (fa_stream_info a)))
           (error_msg R guesses failed)
       \<and> sublist (''charset='' @ repr_opt R (charset (fa_stream_info a)))
           (error_msg R guesses failed)
       \<and> sublist (''filename='' @ repr_opt R (filename (fa_stream_info a)))
           (error_msg R guesses failed)
       \<and> sublist (''local_path='' @ repr_opt R (local_path (fa_stream_info a)))
           (error_msg R guesses failed)
       \<and> sublist (''url='' @ repr_opt R (url (fa_stream_info a)))
           (error_msg R guesses failed)"
proof -
  have "sublist (StreamInfo_repr R (fa_stream_info a))
          (R ''stream_info'' @ '': '' @ StreamInfo_repr R (fa_stream_info a))"
    by (metis sublist_append_leftI append_assoc)
  with error_msg_failed_fields[OF assms, of R guesses]
  have "sublist (StreamInfo_repr R (fa_stream_info a)) (error_msg R guesses failed)"
    by (meson sublist_order.order_trans)
  with StreamInfo_repr_fields[of R "fa_stream_info a"] show ?thesis
    by (meson sublist_order.order_trans)
qed

lemma convert_with_guesses_exhausted:
  assumes "convert_loop nks opts convs guesses st [] = Exhausted st' failed"
  shows "convert_with_guesses R nks opts convs st guesses =
           Inl (UnsupportedFormatException (error_msg R guesses failed))"
  using assms by (simp add: convert_with_guesses_def)

text \<open>
  Claim C4. (1) When \<open>accepts\<close> raises, or \<open>accepts\<close> returns true and \<open>convert\<close> raises, the
  exception is caught, an entry with the converter's class name, the descriptor and the
  error text is appended to the recorded failures, and the loop goes on with the next
  converter. (2) When the loops run out of combinations, the result is
  \<open>UnsupportedFormatException\<close>. Its message contains the rendering of every guessed
  descriptor, which shows the descriptor's MIME type, extension and file name where they are
  set; and for every recorded failure it contains the entry and, in it, the converter's name,
  the descriptor with each of its six fields, and the error text, each behind its key.
  (3) For converters whose outcome does not depend on the position of the stream, the whole
  loop is: the first successful conversion in attempt order, and otherwise
  \<open>UnsupportedFormatException\<close> whose message lists exactly the raising attempts in order.
\<close>

theorem convert_with_guesses_records_failures:
  "((fst (accepts (converter reg) st si) = Inl e \<or>
      (fst (accepts (converter reg) st si) = Inr True \<and>
       fst (convert (converter reg) (snd (accepts (converter reg) st si)) si) = Inl e)) \<longrightarrow>
     (\<exists>st1. try_converters nks opts si (reg # regs) st failed0 =
        try_converters nks opts si regs st1
          (failed0 @ [\<lparr>fa_converter = class_name (converter reg), fa_stream_info = si,
                        fa_error = e\<rparr>])))
   \<and> (convert_loop nks opts convs guesses st [] = Exhausted st' failed \<longrightarrow>
        convert_with_guesses R nks opts convs st guesses =
           Inl (UnsupportedFormatException (error_msg R guesses failed))
       \<and> (\<forall>g\<in>set guesses.
             sublist (R (StreamInfo_str g)) (error_msg R guesses failed)
           \<and> (\<forall>m. mimetype g = Some m \<and> m \<noteq> [] \<longrightarrow>
                  sublist (''mimetype='' @ m) (StreamInfo_str g))
           \<and> (\<forall>x. extension g = Some x \<and> x \<noteq> [] \<longrightarrow>
                  sublist (''ext='' @ x) (StreamInfo_str g))
           \<and> (\<forall>f. filename g = Some f \<and> f \<noteq> [] \<longrightarrow>
                  sublist (''filename='' @ f) (StreamInfo_str g)))
       \<and> (\<forall>a\<in>set failed.
             sublist (failed_attempt_repr R a) (error_msg R guesses failed)
           \<and> sublist (R ''converter'' @ '': '' @ R (fa_converter a)) (error_msg R guesses failed)
           \<and> sublist (R ''stream_info'' @ '': '' @ StreamInfo_repr R (fa_stream_info a))
               (error_msg R guesses failed)
           \<and> sublist (''mimetype='' @ repr_opt R (mimetype (fa_stream_info a)))
               (error_msg R guesses failed)
           \<and> sublist (''extension='' @ repr_opt R (extension (fa_stream_info a)))
               (error_msg R guesses failed)
           \<and> sublist (''charset='' @ repr_opt R (charset (fa_stream_info a)))
               (error_msg R guesses failed)
           \<and> sublist (''filename='' @ repr_opt R (filename (fa_stream_info a)))
               (error_msg R guesses failed)
           \<and> sublist (''local_path='' @ repr_opt R (local_path (fa_stream_info a)))
               (error_msg R guesses failed)
           \<and> sublist (''url='' @ repr_opt R (url (fa_stream_info a)))
               (error_msg R guesses failed)
           \<and> sublist (R ''error'' @ '': '' @ R (fa_error a)) (error_msg R guesses failed)))
   \<and> ((\<forall>reg\<in>set convs. \<forall>si\<in>set guesses. \<forall>s.
          fst (attempt nks opts (converter reg) s si) = out reg si) \<longrightarrow>
        convert_with_guesses R nks opts convs st guesses =
          (case first_result out (attempts_in_order convs guesses) of
             Some r \<Rightarrow> Inr r
           | None \<Rightarrow> Inl (UnsupportedFormatException
               (error_msg R guesses (recorded_failures out (attempts_in_order convs guesses))))))"
proof (intro conjI impI ballI)
  assume "fst (accepts (converter reg) st si) = Inl e \<or>
      (fst (accepts (converter reg) st si) = Inr True \<and>
       fst (convert (converter reg) (snd (accepts (converter reg) st si)) si) = Inl e)"
  then show "\<exists>st1. try_converters nks opts si (reg # regs) st failed0 =
        try_converters nks opts si regs st1
          (failed0 @ [\<lparr>fa_converter = class_name (converter reg), fa_stream_info = si,
                        fa_error = e\<rparr>])"
    by (rule try_converters_raised)
next
  assume "convert_loop nks opts convs guesses st [] = Exhausted st' failed"
  then show "convert_with_guesses R nks opts convs st guesses =
           Inl (UnsupportedFormatException (error_msg R guesses failed))"
    by (rule convert_with_guesses_exhausted)
next
  fix g assume "g \<in> set guesses"
  then show "sublist (R (StreamInfo_str g)) (error_msg R guesses failed)"
    by (rule error_msg_guesses)
next
  fix g
  show "\<forall>m. mimetype g = Some m \<and> m \<noteq> [] \<longrightarrow> sublist (''mimetype='' @ m) (StreamInfo_str g)"
    using StreamInfo_str_fields[of g] by blast
next
  fix g
  show "\<forall>x. extension g = Some x \<and> x \<noteq> [] \<longrightarrow> sublist (''ext='' @ x) (StreamInfo_str g)"
    using StreamInfo_str_fields[of g] by blast
next
  fix g
  show "\<forall>f. filename g = Some f \<and> f \<noteq> [] \<longrightarrow> sublist (''filename='' @ f) (StreamInfo_str g)"
    using StreamInfo_str_fields[of g] by blast
next
  fix a assume "a \<in> set failed"
  then show "sublist (failed_attempt_repr R a) (error_msg R guesses failed)"
    by (rule error_msg_failed)
next
  fix a assume "a \<in> set failed"
  from error_msg_failed_fields[OF this, of R guesses]
  show "sublist (R ''converter'' @ '': '' @ R (fa_converter a)) (error_msg R guesses failed)"
    by blast
next
  fix a assume "a \<in> set failed"
  from error_msg_failed_fields[OF this, of R guesses]
  show "sublist (R ''stream_info'' @ '': '' @ StreamInfo_repr R (fa_stream_info a))
               (error_msg R guesses failed)"
    by blast
next
  fix a assume "a \<in> set failed"
  from error_msg_failed_descriptor[OF this, of R guesses]
  show "sublist (''mimetype='' @ repr_opt R (mimetype (fa_stream_info a)))
               (error_msg R guesses failed)"
    by blast
next
  fix a assume "a \<in> set failed"
  from error_msg_failed_descriptor[OF this, of R guesses]
  show "sublist (''extension='' @ repr_opt R (extension (fa_stream_info a)))
               (error_msg R guesses failed)"
    by blast
next
  fix a assume "a \<in> set failed"
  from error_msg_failed_descriptor[OF this, of R guesses]
  show "sublist (''charset='' @ repr_opt R (charset (fa_stream_info a)))
               (error_msg R guesses failed)"
    by blast
next
  fix a assume "a \<in> set failed"
  from error_msg_failed_descriptor[OF this, of R guesses]
  show "sublist (''filename='' @ repr_opt R (filename (fa_stream_info a)))
               (error_msg R guesses failed)"
    by blast
next
  fix a assume "a \<in> set failed"
  from error_msg_failed_descriptor[OF this, of R guesses]
  show "sublist (''local_path='' @ repr_opt R (local_path (fa_stream_info a)))
               (error_msg R guesses failed)"
    by blast
next
  fix a assume "a \<in> set failed"
  from error_msg_failed_descriptor[OF this, of R guesses]
  show "sublist (''url='' @ repr_opt R (url (fa_stream_info a)))
               (error_msg R guesses failed)"
    by blast
next
  fix a assume "a \<in> set failed"
  from error_msg_failed_fields[OF this, of R guesses]
  show "sublist (R ''error'' @ '': '' @ R (fa_error a)) (error_msg R guesses failed)"
    by blast
next
  assume "\<forall>reg\<in>set convs. \<forall>si\<in>set guesses. \<forall>s.
          fst (attempt nks opts (converter reg) s si) = out reg si"
  then show "convert_with_guesses R nks opts convs st guesses =
          (case first_result out (attempts_in_order convs guesses) of
             Some r \<Rightarrow> Inr r
           | None \<Rightarrow> Inl (UnsupportedFormatException
               (error_msg R guesses (recorded_failures out (attempts_in_order convs guesses)))))"
    by (rule convert_with_guesses_first_result)
qed

text \<open>
  The run of the loop on the sample converters, with \<open>repr\<close> of these strings being the
  string between single quotes: both failures are recorded in order, and the message reads
  \<^verbatim>\<open>No suitable converter found for stream (guessed types: ['StreamInfo(ext=.xyz)'])\<close>, a
  backslash, and \<^verbatim>\<open>nFailed attempts:\<close> followed by the list of the two entries.
\<close>

theorem convert_with_guesses_records_failures_witness:
  "try_converters id \<lparr>opt_korean_optimization = False, opt_enable_korean_support = True\<rparr> guess_xyz
       [\<lparr>converter = conv_A, priority = 0\<rparr>, \<lparr>converter = conv_B, priority = 1\<rparr>] 0 []
     = Exhausted 1
         [\<lparr>fa_converter = ''A'', fa_stream_info = guess_xyz, fa_error = ''boom''\<rparr>,
          \<lparr>fa_converter = ''B'', fa_stream_info = guess_xyz, fa_error = ''bad''\<rparr>]
   \<and> convert_with_guesses quoted id \<lparr>opt_korean_optimization = False, opt_enable_korean_support = True\<rparr>
       [\<lparr>converter = conv_A, priority = 0\<rparr>, \<lparr>converter = conv_B, priority = 1\<rparr>] 0 [guess_xyz]
     = Inl (UnsupportedFormatException
         (''No suitable converter found for stream (guessed types: ['StreamInfo(ext=.xyz)'])''
          @ [CHR 0x5C] @
          ''nFailed attempts: [{'converter': 'A', 'stream_info': StreamInfo(mimetype=None, extension='.xyz', charset=None, filename=None, local_path=None, url=None), 'error': 'boom'}, {'converter': 'B', 'stream_info': StreamInfo(mimetype=None, extension='.xyz', charset=None, filename=None, local_path=None, url=None), 'error': 'bad'}]''))
   \<and> sublist ''ext=.xyz'' (StreamInfo_str guess_xyz)
   \<and> sublist ''['StreamInfo(ext=.xyz)']''
       (error_msg quoted [guess_xyz]
          [\<lparr>fa_converter = ''A'', fa_stream_info = guess_xyz, fa_error = ''boom''\<rparr>,
           \<lparr>fa_converter = ''B'', fa_stream_info = guess_xyz, fa_error = ''bad''\<rparr>])
   \<and> sublist (quoted ''converter'' @ '': '' @ quoted ''B'')
       (error_msg quoted [guess_xyz]
          [\<lparr>fa_converter = ''A'', fa_stream_info = guess_xyz, fa_error = ''boom''\<rparr>,
           \<lparr>fa_converter = ''B'', fa_stream_info = guess_xyz, fa_error = ''bad''\<rparr>])
   \<and> sublist (''extension='' @ quoted ''.xyz'')
       (error_msg quoted [guess_xyz]
          [\<lparr>fa_converter = ''A'', fa_stream_info = guess_xyz, fa_error = ''boom''\<rparr>,
           \<lparr>fa_converter = ''B'', fa_stream_info = guess_xyz, fa_error = ''bad''\<rparr>])
   \<and> sublist (quoted ''error'' @ '': '' @ quoted ''bad'')
       (error_msg quoted [guess_xyz]
          [\<lparr>fa_converter = ''A'', fa_stream_info = guess_xyz, fa_error = ''boom''\<rparr>,
           \<lparr>fa_converter = ''B'', fa_stream_info = guess_xyz, fa_error = ''bad''\<rparr>])"
proof -
  let ?opts = "\<lparr>opt_korean_optimization = False, opt_enable_korean_support = True\<rparr>"
  let ?ra = "\<lparr>converter = conv_A, priority = 0\<rparr>"
  let ?rb = "\<lparr>converter = conv_B, priority = 1\<rparr>"
  let ?fa = "\<lparr>fa_converter = ''A'', fa_stream_info = guess_xyz, fa_error = ''boom''\<rparr>"
  let ?fb = "\<lparr>fa_converter = ''B'', fa_stream_info = guess_xyz, fa_error = ''bad''\<rparr>"
  let ?out = "\<lambda>reg si. if class_name (converter reg) = ''A'' then Raised ''boom''
                        else Raised ''bad''"
  let ?msg = "error_msg quoted [guess_xyz] [?fa, ?fb]"
  note t = convert_with_guesses_records_failures
    [of ?ra 0 guess_xyz "''boom''" id ?opts "[?rb]" "[]" "[?ra, ?rb]" "[guess_xyz]" 1
        "[?fa, ?fb]" quoted ?out]
  have h1: "fst (accepts (converter ?ra) 0 guess_xyz) = Inl ''boom''"
    by (simp add: conv_A_def)
  have h2: "convert_loop id ?opts [?ra, ?rb] [guess_xyz] 0 [] = Exhausted 1 [?fa, ?fb]"
    by (simp add: attempt_def conv_A_def conv_B_def)
  have h3: "\<forall>reg\<in>set [?ra, ?rb]. \<forall>si\<in>set [guess_xyz]. \<forall>s.
      fst (attempt id ?opts (converter reg) s si) = ?out reg si"
    by (simp add: attempt_def conv_A_def conv_B_def)
  have h4: "extension guess_xyz = Some ''.xyz'' \<and> ''.xyz'' \<noteq> []"
    by (simp add: guess_xyz_def)
  have m: "?msg =
     ''No suitable converter found for stream (guessed types: ['StreamInfo(ext=.xyz)'])''
     @ [CHR 0x5C] @
     ''nFailed attempts: [{'converter': 'A', 'stream_info': StreamInfo(mimetype=None, extension='.xyz', charset=None, filename=None, local_path=None, url=None), 'error': 'boom'}, {'converter': 'B', 'stream_info': StreamInfo(mimetype=None, extension='.xyz', charset=None, filename=None, local_path=None, url=None), 'error': 'bad'}]''"
    by (simp add: error_msg_def repr_list_def failed_attempt_repr_def StreamInfo_repr_def
        StreamInfo_str_def repr_opt_def quoted_def guess_xyz_def)
  have c1: "try_converters id ?opts guess_xyz [?ra, ?rb] 0 [] = Exhausted 1 [?fa, ?fb]"
    by (simp add: attempt_def conv_A_def conv_B_def)
  from t h2 have c2: "convert_with_guesses quoted id ?opts [?ra, ?rb] 0 [guess_xyz] =
           Inl (UnsupportedFormatException ?msg)"
    by blast
  from t h2 have g: "sublist (quoted (StreamInfo_str guess_xyz)) ?msg
      \<and> (\<forall>x. extension guess_xyz = Some x \<and> x \<noteq> [] \<longrightarrow>
             sublist (''ext='' @ x) (StreamInfo_str guess_xyz))"
    by simp
  from g h4 have c3: "sublist ''ext=.xyz'' (StreamInfo_str guess_xyz)"
    by (metis append_Cons append_Nil)
  from t h2 have b: "sublist (quoted ''converter'' @ '': '' @ quoted (fa_converter ?fb)) ?msg
      \<and> sublist (''extension='' @ repr_opt quoted (extension (fa_stream_info ?fb))) ?msg
      \<and> sublist (quoted ''error'' @ '': '' @ quoted (fa_error ?fb)) ?msg"
    by simp
  have c4: "sublist ''['StreamInfo(ext=.xyz)']'' ?msg"
    unfolding m sublist_def
    by (rule exI[of _ "''No suitable converter found for stream (guessed types: ''"],
        rule exI[of _ "'')'' @ [CHR 0x5C] @ ''nFailed attempts: [{'converter': 'A', 'stream_info': StreamInfo(mimetype=None, extension='.xyz', charset=None, filename=None, local_path=None, url=None), 'error': 'boom'}, {'converter': 'B', 'stream_info': StreamInfo(mimetype=None, extension='.xyz', charset=None, filename=None, local_path=None, url=None), 'error': 'bad'}]''"])
       simp
  from b have c5: "sublist (quoted ''converter'' @ '': '' @ quoted ''B'') ?msg"
    by simp
  from b have c6: "sublist (''extension='' @ quoted ''.xyz'') ?msg"
    by (simp add: repr_opt_def guess_xyz_def)
  from b have c7: "sublist (quoted ''error'' @ '': '' @ quoted ''bad'') ?msg"
    by simp
  from t h1 obtain st1 where
    "try_converters id ?opts guess_xyz [?ra, ?rb] 0 [] =
           try_converters id ?opts guess_xyz [?rb] st1 [?fa]"
    by (simp only: conv_A_def) auto
  from t h3 have "convert_with_guesses quoted id ?opts [?ra, ?rb] 0 [guess_xyz] =
          (case first_result ?out (attempts_in_order [?ra, ?rb] [guess_xyz]) of
             Some r \<Rightarrow> Inr r
           | None \<Rightarrow> Inl (UnsupportedFormatException
               (error_msg quoted [guess_xyz]
                  (recorded_failures ?out (attempts_in_order [?ra, ?rb] [guess_xyz])))))"
    by blast
  from c2 m have c2': "convert_with_guesses quoted id ?opts [?ra, ?rb] 0 [guess_xyz] =
     Inl (UnsupportedFormatException
         (''No suitable converter found for stream (guessed types: ['StreamInfo(ext=.xyz)'])''
          @ [CHR 0x5C] @
          ''nFailed attempts: [{'converter': 'A', 'stream_info': StreamInfo(mimetype=None, extension='.xyz', charset=None, filename=None, local_path=None, url=None), 'error': 'boom'}, {'converter': 'B', 'stream_info': StreamInfo(mimetype=None, extension='.xyz', charset=None, filename=None, local_path=None, url=None), 'error': 'bad'}]''))"
    by (simp only:)
  from c1 c2' c3 c4 c5 c6 c7 show ?thesis by blast
qed

section \<open>Whitespace normalisation (utils/format\_utils.py)\<close>

text \<open>
  The characters for which \<open>str.isspace\<close> holds; \<open>str.strip()\<close> removes exactly these and,
  on \<open>str\<close> patterns, the class \<open>\s\<close> of \<open>re\<close> matches exactly these.
\<close>

definition is_space :: "nat \<Rightarrow> bool" where
  "is_space c \<longleftrightarrow>
     (9 \<le> c \<and> c \<le> 13) \<or> (28 \<le> c \<and> c \<le> 32) \<or> c = 133 \<or> c = 160 \<or> c = 5760 \<or>
     (8192 \<le> c \<and> c \<le> 8202) \<or> c = 8232 \<or> c = 8233 \<or> c = 8239 \<or> c = 8287 \<or> c = 12288"

text \<open>The class \<open>[ \t]\<close>, and the newline character.\<close>

definition is_blank :: "nat \<Rightarrow> bool" where
  "is_blank c \<longleftrightarrow> c = 32 \<or> c = 9"

definition is_nl :: "nat \<Rightarrow> bool" where
  "is_nl c \<longleftrightarrow> c = 10"

text \<open>
  A backtracking matcher for patterns that are a sequence of character classes, each taken
  once or under a greedy star. A matcher takes the rest of the subject and returns the
  length of the match, or \<open>None\<close>; \<open>k\<close> is the matcher of the rest of the pattern.
  \<open>star_of\<close> first tries to take one more character and falls back to the rest of the
  pattern where that fails, which is the order in which \<open>re\<close> explores a greedy \<open>*\<close>; \<open>X+\<close> is
  \<open>X\<close> followed by \<open>X*\<close>.
\<close>

definition accept :: "ustr \<Rightarrow> nat option" where
  "accept s = Some 0"

fun one_of :: "(nat \<Rightarrow> bool) \<Rightarrow> (ustr \<Rightarrow> nat option) \<Rightarrow> ustr \<Rightarrow> nat option" where
  "one_of P k [] = None"
| "one_of P k (c # cs) = (if P c then map_option Suc (k cs) else None)"

fun star_of :: "(nat \<Rightarrow> bool) \<Rightarrow> (ustr \<Rightarrow> nat option) \<Rightarrow> ustr \<Rightarrow> nat option" where
  "star_of P k [] = k []"
| "star_of P k (c # cs) =
     (if P c
      then (case star_of P k cs of Some n \<Rightarrow> Some (Suc n) | None \<Rightarrow> k (c # cs))
      else k (c # cs))"

text \<open>The pattern \<open>[ \t]+\<close>.\<close>

definition m_blanks :: "ustr \<Rightarrow> nat option" where
  "m_blanks = one_of is_blank (star_of is_blank accept)"

text \<open>The pattern \<open>\n\s*\n\s*\n+\<close>.\<close>

definition m_newlines :: "ustr \<Rightarrow> nat option" where
  "m_newlines =
     one_of is_nl (star_of is_space (one_of is_nl (star_of is_space
       (one_of is_nl (star_of is_nl accept)))))"

text \<open>
  \<open>re.sub(pattern, repl, s)\<close> for a pattern \<open>m\<close> that has no empty match and a replacement
  without group references: at each position the leftmost match is replaced and the scan
  goes on behind it; where nothing matches the character is copied.
\<close>

fun re_sub :: "(ustr \<Rightarrow> nat option) \<Rightarrow> ustr \<Rightarrow> ustr \<Rightarrow> ustr" where
  "re_sub m repl [] = []"
| "re_sub m repl (c # cs) =
     (case m (c # cs) of
        Some (Suc n) \<Rightarrow> repl @ re_sub m repl (drop n cs)
      | Some 0 \<Rightarrow> c # re_sub m repl cs
      | None \<Rightarrow> c # re_sub m repl cs)"

text \<open>\<open>str.strip()\<close>.\<close>

definition py_strip :: "ustr \<Rightarrow> ustr" where
  "py_strip s = rev (dropWhile is_space (rev (dropWhile is_space s)))"

definition normalize_whitespace :: "ustr \<Rightarrow> ustr" where
  "normalize_whitespace text0 =
     (if text0 = [] then []
      else (let text1 = re_sub m_blanks [32] text0;
                text2 = re_sub m_newlines [10, 10] text1
            in py_strip text2))"

text \<open>
  Auxiliary measures of the whitespace run at the start of a string: the number of newlines
  in it, and the length of its part up to the last newline (zero when it has none).
\<close>

definition nlc :: "ustr \<Rightarrow> nat" where
  "nlc s = length (filter is_nl (takeWhile is_space s))"

fun lne :: "ustr \<Rightarrow> nat" where
  "lne [] = 0"
| "lne (c # cs) =
     (if is_space c then (if 0 < lne cs then Suc (lne cs) else if is_nl c then 1 else 0)
      else 0)"

text \<open>No position where \<open>\n\s*\n\s*\n+\<close> matches; no tab and no two blanks in a row.\<close>

fun nl_ok :: "ustr \<Rightarrow> bool" where
  "nl_ok [] = True"
| "nl_ok (c # cs) = (\<not> (is_nl c \<and> 2 \<le> nlc cs) \<and> nl_ok cs)"

fun blank_ok :: "ustr \<Rightarrow> bool" where
  "blank_ok [] = True"
| "blank_ok (c # cs) =
     (c \<noteq> 9 \<and> \<not> (c = 32 \<and> (case cs of [] \<Rightarrow> False | d # ds \<Rightarrow> d = 32)) \<and> blank_ok cs)"

lemma is_space_nl [simp]: "is_nl c \<Longrightarrow> is_space c"
  by (simp add: is_nl_def is_space_def)

lemma is_space_blank [simp]: "is_blank c \<Longrightarrow> is_space c"
  by (auto simp add: is_blank_def is_space_def)

lemma nlc_Nil [simp]: "nlc [] = 0"
  by (simp add: nlc_def)

lemma nlc_Cons:
  "nlc (c # cs) = (if is_space c then (if is_nl c then Suc (nlc cs) else nlc cs) else 0)"
  by (simp add: nlc_def)

lemma lne_pos_iff: "0 < lne s \<longleftrightarrow> 0 < nlc s"
  by (induction s) (auto simp add: nlc_Cons)

lemma star_of_accept: "star_of P accept s = Some (length (takeWhile P s))"
  by (induction s) (simp_all add: accept_def)

lemma m_blanks_eq:
  "m_blanks s =
     (case s of [] \<Rightarrow> None
      | c # cs \<Rightarrow> if is_blank c then Some (Suc (length (takeWhile is_blank cs))) else None)"
proof (cases s)
  case Nil
  then show ?thesis by (simp add: m_blanks_def)
next
  case (Cons c cs)
  have k: "star_of is_blank accept cs = Some (length (takeWhile is_blank cs))"
    by (rule star_of_accept)
  show ?thesis unfolding Cons m_blanks_def using k by simp
qed

lemma lne_zero_hd: "lne (c # cs) = 0 \<Longrightarrow> \<not> is_nl c"
  by (auto split: if_splits)

lemma inner_star:
  "star_of is_space (one_of is_nl (star_of is_nl accept)) s =
     (if 0 < lne s then Some (lne s) else None)"
proof (induction s)
  case Nil
  then show ?case by simp
next
  case (Cons c cs)
  show ?case
  proof (cases "0 < lne cs")
    case True
    with Cons show ?thesis by auto
  next
    case False
    then have z: "lne cs = 0" by simp
    have t: "takeWhile is_nl cs = []"
    proof (cases cs)
      case Nil
      then show ?thesis by simp
    next
      case (Cons d ds)
      with z have "\<not> is_nl d" using lne_zero_hd by blast
      with Cons show ?thesis by simp
    qed
    have ih: "star_of is_space (one_of is_nl (star_of is_nl accept)) cs = None"
      using Cons z by simp
    show ?thesis
    proof (cases "is_space c")
      case True
      have k: "star_of is_nl accept cs = Some 0"
        using t by (simp add: star_of_accept)
      from True show ?thesis using ih z k by simp
    next
      case False
      then have "\<not> is_nl c" by auto
      with False show ?thesis by simp
    qed
  qed
qed

lemma middle_star:
  "star_of is_space (one_of is_nl (star_of is_space (one_of is_nl (star_of is_nl accept)))) s =
     (if 2 \<le> nlc s then Some (lne s) else None)"
proof (induction s)
  case Nil
  then show ?case by simp
next
  case (Cons c cs)
  have p: "0 < lne cs \<longleftrightarrow> 0 < nlc cs" by (rule lne_pos_iff)
  have k: "star_of is_space (one_of is_nl (star_of is_nl accept)) cs =
             (if 0 < lne cs then Some (lne cs) else None)"
    by (rule inner_star)
  show ?case
  proof (cases "is_space c")
    case False
    then have "\<not> is_nl c" by auto
    with False show ?thesis by (simp add: nlc_Cons)
  next
    case True
    show ?thesis
    proof (cases "2 \<le> nlc cs")
      case True
      then have "0 < lne cs" using p by simp
      with True \<open>is_space c\<close> Cons show ?thesis by (simp add: nlc_Cons)
    next
      case False
      then have ih: "star_of is_space (one_of is_nl (star_of is_space
          (one_of is_nl (star_of is_nl accept)))) cs = None"
        using Cons by simp
      show ?thesis
      proof (cases "is_nl c")
        case True
        show ?thesis
        proof (cases "0 < lne cs")
          case True
          then have "nlc cs = 1" using p False by simp
          with True \<open>is_nl c\<close> \<open>is_space c\<close> ih k show ?thesis
            by (simp add: nlc_Cons)
        next
          case False
          then have "nlc cs = 0" using p by simp
          with False \<open>is_nl c\<close> \<open>is_space c\<close> ih k show ?thesis
            by (simp add: nlc_Cons)
        qed
      next
        case False
        with \<open>\<not> 2 \<le> nlc cs\<close> \<open>is_space c\<close> ih show ?thesis
          by (simp add: nlc_Cons)
      qed
    qed
  qed
qed

lemma m_newlines_eq:
  "m_newlines s =
     (case s of [] \<Rightarrow> None
      | c # cs \<Rightarrow> if is_nl c \<and> 2 \<le> nlc cs then Some (Suc (lne cs)) else None)"
proof (cases s)
  case Nil
  then show ?thesis by (simp add: m_newlines_def)
next
  case (Cons c cs)
  have k: "star_of is_space (one_of is_nl (star_of is_space
             (one_of is_nl (star_of is_nl accept)))) cs =
           (if 2 \<le> nlc cs then Some (lne cs) else None)"
    by (rule middle_star)
  show ?thesis unfolding Cons m_newlines_def using k by simp
qed

text \<open>The two substitutions of \<open>normalize_whitespace\<close>, unfolded.\<close>

lemma sub_blanks_Cons:
  "re_sub m_blanks [32] (c # cs) =
     (if is_blank c then 32 # re_sub m_blanks [32] (dropWhile is_blank cs)
      else c # re_sub m_blanks [32] cs)"
  by (simp add: m_blanks_eq dropWhile_eq_drop[symmetric])

lemma sub_newlines_Cons:
  "re_sub m_newlines [10, 10] (c # cs) =
     (if is_nl c \<and> 2 \<le> nlc cs then 10 # 10 # re_sub m_newlines [10, 10] (drop (lne cs) cs)
      else c # re_sub m_newlines [10, 10] cs)"
  by (simp add: m_newlines_eq)

declare re_sub.simps [simp del]

lemma re_sub_Nil [simp]: "re_sub m repl [] = []"
  by (simp add: re_sub.simps)

lemma sub_newlines_match:
  "is_nl c \<Longrightarrow> 2 \<le> nlc cs \<Longrightarrow>
   re_sub m_newlines [10, 10] (c # cs) = 10 # 10 # re_sub m_newlines [10, 10] (drop (lne cs) cs)"
  by (simp add: sub_newlines_Cons)

lemma sub_newlines_nomatch:
  "\<not> (is_nl c \<and> 2 \<le> nlc cs) \<Longrightarrow>
   re_sub m_newlines [10, 10] (c # cs) = c # re_sub m_newlines [10, 10] cs"
  by (auto simp add: sub_newlines_Cons)

lemma takeWhile_run_append:
  "takeWhile P (takeWhile P s @ t) = takeWhile P s @ takeWhile P t"
  by (induction s) auto

lemma dropWhile_id: "xs = [] \<or> \<not> P (hd xs) \<Longrightarrow> dropWhile P xs = xs"
  by (cases xs) auto

lemma last_dropWhile: "dropWhile P xs \<noteq> [] \<Longrightarrow> last (dropWhile P xs) = last xs"
proof -
  assume a: "dropWhile P xs \<noteq> []"
  have "last (takeWhile P xs @ dropWhile P xs) = last (dropWhile P xs)"
    using a by (rule last_appendR)
  then show ?thesis by simp
qed

lemma rev_dropWhile_rev:
  "rev (dropWhile P (rev xs)) = take (length xs - length (takeWhile P (rev xs))) xs"
proof -
  have "dropWhile P (rev xs) = drop (length (takeWhile P (rev xs))) (rev xs)"
    by (rule dropWhile_eq_drop)
  then show ?thesis by (simp add: rev_drop)
qed

lemma nlc_drop_lne: "nlc (drop (lne s) s) = 0"
  by (induction s) (auto simp add: nlc_Cons lne_pos_iff)

lemma sub_newlines_Nil_iff: "re_sub m_newlines [10, 10] s = [] \<longleftrightarrow> s = []"
  by (cases s) (auto simp add: sub_newlines_Cons)

lemma sub_newlines_hd: "hd (re_sub m_newlines [10, 10] (c # cs)) = c"
  by (cases "is_nl c \<and> 2 \<le> nlc cs")
    (auto simp add: sub_newlines_match sub_newlines_nomatch is_nl_def)

lemma sub_newlines_run:
  "nlc s \<le> 2 \<Longrightarrow>
   re_sub m_newlines [10, 10] s =
     takeWhile is_space s @ re_sub m_newlines [10, 10] (dropWhile is_space s)"
proof (induction s)
  case Nil
  then show ?case by simp
next
  case (Cons c cs)
  show ?case
  proof (cases "is_space c")
    case True
    with Cons.prems have le: "nlc cs \<le> 2" and no: "\<not> (is_nl c \<and> 2 \<le> nlc cs)"
      by (auto simp add: nlc_Cons split: if_splits)
    show ?thesis
      unfolding sub_newlines_nomatch[OF no] using True Cons.IH[OF le] by simp
  next
    case False
    then show ?thesis by simp
  qed
qed

lemma takeWhile_space_sub_nonspace:
  "s = [] \<or> \<not> is_space (hd s) \<Longrightarrow> takeWhile is_space (re_sub m_newlines [10, 10] s) = []"
proof (cases s)
  case Nil
  then show ?thesis by simp
next
  case (Cons c cs)
  assume "s = [] \<or> \<not> is_space (hd s)"
  with Cons have "\<not> is_space c" by simp
  then have "\<not> (is_nl c \<and> 2 \<le> nlc cs)" by auto
  then have "re_sub m_newlines [10, 10] (c # cs) = c # re_sub m_newlines [10, 10] cs"
    by (rule sub_newlines_nomatch)
  with Cons \<open>\<not> is_space c\<close> show ?thesis by simp
qed

lemma nlc_sub_newlines: "nlc s \<le> 2 \<Longrightarrow> nlc (re_sub m_newlines [10, 10] s) = nlc s"
proof -
  assume a: "nlc s \<le> 2"
  have d: "dropWhile is_space s = [] \<or> \<not> is_space (hd (dropWhile is_space s))"
    by (metis hd_dropWhile)
  have "takeWhile is_space (re_sub m_newlines [10, 10] s) = takeWhile is_space s"
    unfolding sub_newlines_run[OF a]
    using takeWhile_space_sub_nonspace[OF d]
    by (simp add: takeWhile_run_append)
  then show ?thesis by (simp add: nlc_def)
qed

lemma nl_ok_sub_newlines: "nl_ok (re_sub m_newlines [10, 10] s)"
proof (induction s rule: length_induct)
  case (1 s)
  show ?case
  proof (cases s)
    case Nil
    then show ?thesis by simp
  next
    case (Cons c cs)
    show ?thesis
    proof (cases "is_nl c \<and> 2 \<le> nlc cs")
      case True
      let ?r = "drop (lne cs) cs"
      have "length ?r < length s" using Cons by simp
      with 1 have ok: "nl_ok (re_sub m_newlines [10, 10] ?r)" by blast
      have z: "nlc (re_sub m_newlines [10, 10] ?r) = 0"
        using nlc_sub_newlines[of ?r] nlc_drop_lne[of cs] by simp
      have "re_sub m_newlines [10, 10] s =
              10 # 10 # re_sub m_newlines [10, 10] ?r"
        using True Cons by (simp add: sub_newlines_match)
      with ok z show ?thesis
        by (simp add: nlc_Cons is_nl_def is_space_def)
    next
      case False
      have "length cs < length s" using Cons by simp
      with 1 have ok: "nl_ok (re_sub m_newlines [10, 10] cs)" by blast
      have "\<not> (is_nl c \<and> 2 \<le> nlc (re_sub m_newlines [10, 10] cs))"
      proof
        assume h: "is_nl c \<and> 2 \<le> nlc (re_sub m_newlines [10, 10] cs)"
        with False have "nlc cs \<le> 2" by simp
        then have "nlc (re_sub m_newlines [10, 10] cs) = nlc cs" by (rule nlc_sub_newlines)
        with h False show False by simp
      qed
      moreover have "re_sub m_newlines [10, 10] s = c # re_sub m_newlines [10, 10] cs"
        using False Cons by (simp add: sub_newlines_nomatch)
      ultimately show ?thesis using ok by simp
    qed
  qed
qed

lemma sub_newlines_id: "nl_ok s \<Longrightarrow> re_sub m_newlines [10, 10] s = s"
  by (induction s) (simp_all add: sub_newlines_nomatch)

lemma sub_blanks_Nil_iff: "re_sub m_blanks [32] s = [] \<longleftrightarrow> s = []"
  by (cases s) (simp_all add: sub_blanks_Cons)

lemma sub_blanks_hd_nonblank:
  "\<not> is_blank c \<Longrightarrow> re_sub m_blanks [32] (c # cs) = c # re_sub m_blanks [32] cs"
  by (simp add: sub_blanks_Cons)

lemma blank_ok_sub_blanks: "blank_ok (re_sub m_blanks [32] s)"
proof (induction s rule: length_induct)
  case (1 s)
  show ?case
  proof (cases s)
    case Nil
    then show ?thesis by simp
  next
    case (Cons c cs)
    show ?thesis
    proof (cases "is_blank c")
      case True
      let ?r = "dropWhile is_blank cs"
      have "length ?r < length s" using Cons
        by (simp add: length_dropWhile_le le_imp_less_Suc)
      with 1 have ok: "blank_ok (re_sub m_blanks [32] ?r)" by blast
      have "\<not> (case re_sub m_blanks [32] ?r of [] \<Rightarrow> False | d # ds \<Rightarrow> d = 32)"
      proof (cases ?r)
        case Nil
        show ?thesis unfolding Nil by simp
      next
        case (Cons d ds)
        have "?r \<noteq> []" using Cons by simp
        then have "\<not> is_blank (hd ?r)" by (rule hd_dropWhile)
        then have nb: "\<not> is_blank d" using Cons by simp
        show ?thesis unfolding Cons using nb
          by (simp add: sub_blanks_Cons is_blank_def)
      qed
      with True Cons ok show ?thesis
        by (simp add: sub_blanks_Cons)
    next
      case False
      have "length cs < length s" using Cons by simp
      with 1 have ok: "blank_ok (re_sub m_blanks [32] cs)" by blast
      from False Cons ok show ?thesis
        by (simp add: sub_blanks_Cons is_blank_def)
    qed
  qed
qed

lemma sub_blanks_id: "blank_ok s \<Longrightarrow> re_sub m_blanks [32] s = s"
proof (induction s)
  case Nil
  then show ?case by simp
next
  case (Cons c cs)
  then show ?case
    by (cases cs) (auto simp add: sub_blanks_Cons is_blank_def)
qed

lemma blank_ok_sub_newlines: "blank_ok s \<Longrightarrow> blank_ok (re_sub m_newlines [10, 10] s)"
proof (induction s rule: length_induct)
  case (1 s)
  show ?case
  proof (cases s)
    case Nil
    then show ?thesis by simp
  next
    case (Cons c cs)
    have drop_ok: "\<And>n. blank_ok (drop n cs)"
    proof -
      fix n
      have "\<And>t. blank_ok t \<Longrightarrow> blank_ok (drop n t)"
      proof (induction n)
        case 0
        then show ?case by simp
      next
        case (Suc n)
        then show ?case by (cases t) simp_all
      qed
      then show "blank_ok (drop n cs)" using 1(2) Cons by simp
    qed
    show ?thesis
    proof (cases "is_nl c \<and> 2 \<le> nlc cs")
      case True
      let ?r = "drop (lne cs) cs"
      have "length ?r < length s" using Cons by simp
      with 1(1) drop_ok have "blank_ok (re_sub m_newlines [10, 10] ?r)" by blast
      with True Cons show ?thesis
        by (simp add: sub_newlines_match)
    next
      case False
      have "length cs < length s" using Cons by simp
      moreover have "blank_ok cs" using 1(2) Cons by simp
      ultimately have ok: "blank_ok (re_sub m_newlines [10, 10] cs)" using 1(1) by blast
      show ?thesis
      proof (cases cs)
        case Nil
        with False \<open>s = c # cs\<close> 1(2) show ?thesis by (simp add: sub_newlines_nomatch)
      next
        case (Cons d ds)
        have "re_sub m_newlines [10, 10] (d # ds) \<noteq> []"
          by (simp add: sub_newlines_Nil_iff)
        then obtain e es where e: "re_sub m_newlines [10, 10] (d # ds) = e # es"
          by (cases "re_sub m_newlines [10, 10] (d # ds)") auto
        have "e = d" using sub_newlines_hd[of d ds] e by simp
        have "re_sub m_newlines [10, 10] s = c # d # es"
          using False \<open>s = c # cs\<close> Cons e \<open>e = d\<close> by (simp add: sub_newlines_nomatch)
        moreover have "blank_ok (d # es)" using ok Cons e \<open>e = d\<close> by simp
        ultimately show ?thesis using 1(2) \<open>s = c # cs\<close> Cons by simp
      qed
    qed
  qed
qed

text \<open>Both invariants pass to every contiguous part of a string.\<close>

lemma blank_ok_drop: "blank_ok s \<Longrightarrow> blank_ok (drop n s)"
proof (induction n arbitrary: s)
  case 0
  then show ?case by simp
next
  case (Suc n)
  then show ?case by (cases s) simp_all
qed

lemma blank_ok_take: "blank_ok s \<Longrightarrow> blank_ok (take n s)"
proof (induction s arbitrary: n)
  case Nil
  then show ?case by simp
next
  case (Cons c cs)
  show ?case
  proof (cases n)
    case 0
    then show ?thesis by simp
  next
    case (Suc k)
    have ih: "blank_ok (take k cs)" using Cons by simp
    show ?thesis
      using Cons.prems ih Suc by (cases cs; cases k) auto
  qed
qed

lemma nl_ok_drop: "nl_ok s \<Longrightarrow> nl_ok (drop n s)"
proof (induction n arbitrary: s)
  case 0
  then show ?case by simp
next
  case (Suc n)
  then show ?case by (cases s) simp_all
qed

lemma nlc_take_le: "nlc (take n s) \<le> nlc s"
proof (induction s arbitrary: n)
  case Nil
  then show ?case by simp
next
  case (Cons c cs)
  then show ?case
    by (cases n) (auto simp add: nlc_Cons le_SucI)
qed

lemma nl_ok_take: "nl_ok s \<Longrightarrow> nl_ok (take n s)"
proof (induction s arbitrary: n)
  case Nil
  then show ?case by simp
next
  case (Cons c cs)
  show ?case
  proof (cases n)
    case 0
    then show ?thesis by simp
  next
    case (Suc k)
    have "nlc (take k cs) \<le> nlc cs" by (rule nlc_take_le)
    with Cons Suc show ?thesis by auto
  qed
qed

lemma py_strip_take_drop:
  "py_strip s = take (length (dropWhile is_space s)
                        - length (takeWhile is_space (rev (dropWhile is_space s))))
                  (drop (length (takeWhile is_space s)) s)"
  unfolding py_strip_def rev_dropWhile_rev
  by (simp add: dropWhile_eq_drop[symmetric])

lemma py_strip_ends:
  "py_strip s = [] \<or> (\<not> is_space (hd (py_strip s)) \<and> \<not> is_space (last (py_strip s)))"
proof (cases "py_strip s = []")
  case True
  then show ?thesis by simp
next
  case False
  let ?d = "dropWhile is_space s"
  let ?e = "dropWhile is_space (rev ?d)"
  have e: "?e \<noteq> []" using False by (simp add: py_strip_def)
  then have l: "\<not> is_space (hd ?e)" by (rule hd_dropWhile)
  have la: "last (py_strip s) = hd ?e"
    using e by (simp add: py_strip_def last_rev)
  have d: "?d \<noteq> []"
  proof
    assume a: "?d = []"
    show False using e unfolding a by simp
  qed
  then have h: "\<not> is_space (hd ?d)" by (rule hd_dropWhile)
  have "hd (py_strip s) = last ?e"
    using e by (simp add: py_strip_def hd_rev)
  also have "\<dots> = last (rev ?d)" using e by (rule last_dropWhile)
  also have "\<dots> = hd ?d" using d by (simp add: last_rev)
  finally have "hd (py_strip s) = hd ?d" .
  with h la l show ?thesis by simp
qed

lemma py_strip_id:
  "s = [] \<or> (\<not> is_space (hd s) \<and> \<not> is_space (last s)) \<Longrightarrow> py_strip s = s"
proof (cases "s = []")
  case True
  then show ?thesis by (simp add: py_strip_def)
next
  case False
  assume "s = [] \<or> (\<not> is_space (hd s) \<and> \<not> is_space (last s))"
  with False have h: "\<not> is_space (hd s)" and l: "\<not> is_space (last s)" by auto
  have d: "dropWhile is_space s = s" using h by (intro dropWhile_id) simp
  have "\<not> is_space (hd (rev s))" using False l by (simp add: hd_rev)
  then have "dropWhile is_space (rev s) = rev s" by (intro dropWhile_id) simp
  with d show ?thesis by (simp add: py_strip_def)
qed

lemma normalize_whitespace_invariants:
  "nl_ok (normalize_whitespace x) \<and> blank_ok (normalize_whitespace x)"
proof (cases "x = []")
  case True
  then show ?thesis by (simp add: normalize_whitespace_def)
next
  case False
  let ?t = "re_sub m_newlines [10, 10] (re_sub m_blanks [32] x)"
  obtain j k where jk: "py_strip ?t = take k (drop j ?t)"
    using py_strip_take_drop[of ?t] by blast
  have "nl_ok ?t" by (rule nl_ok_sub_newlines)
  then have a: "nl_ok (py_strip ?t)" unfolding jk by (intro nl_ok_take nl_ok_drop)
  have "blank_ok ?t" by (intro blank_ok_sub_newlines blank_ok_sub_blanks)
  then have b: "blank_ok (py_strip ?t)" unfolding jk by (intro blank_ok_take blank_ok_drop)
  from a b False show ?thesis by (simp add: normalize_whitespace_def)
qed

lemma normalize_whitespace_ends:
  "normalize_whitespace x = [] \<or>
     (\<not> is_space (hd (normalize_whitespace x)) \<and> \<not> is_space (last (normalize_whitespace x)))"
  using py_strip_ends by (simp add: normalize_whitespace_def)

lemma normalize_whitespace_idem:
  "normalize_whitespace (normalize_whitespace x) = normalize_whitespace x"
proof -
  let ?y = "normalize_whitespace x"
  have inv: "nl_ok ?y" "blank_ok ?y" using normalize_whitespace_invariants by auto
  have "py_strip ?y = ?y" using normalize_whitespace_ends by (rule py_strip_id)
  with inv show ?thesis
    by (simp add: normalize_whitespace_def[of ?y] sub_blanks_id sub_newlines_id)
qed

lemma nl_ok_no_three: "nl_ok (a @ [10, 10, 10] @ b) \<Longrightarrow> False"
proof (induction a)
  case Nil
  then show ?case by (simp add: nlc_Cons is_nl_def is_space_def)
next
  case (Cons c a)
  then show ?case by simp
qed

text \<open>
  Claim C6. For every input string, \<open>normalize_whitespace\<close> applied twice gives the same
  result as applied once; its output never contains three consecutive newline characters;
  and its output is empty or neither starts nor ends with a whitespace character.
\<close>

theorem normalize_whitespace_idempotent:
  "normalize_whitespace (normalize_whitespace x) = normalize_whitespace x
   \<and> \<not> (\<exists>a b. normalize_whitespace x = a @ [10, 10, 10] @ b)
   \<and> (normalize_whitespace x = [] \<or>
        (\<not> is_space (hd (normalize_whitespace x)) \<and>
         \<not> is_space (last (normalize_whitespace x))))"
proof (intro conjI)
  show "normalize_whitespace (normalize_whitespace x) = normalize_whitespace x"
    by (rule normalize_whitespace_idem)
  show "\<not> (\<exists>a b. normalize_whitespace x = a @ [10, 10, 10] @ b)"
    using normalize_whitespace_invariants[of x] nl_ok_no_three by metis
  show "normalize_whitespace x = [] \<or>
        (\<not> is_space (hd (normalize_whitespace x)) \<and>
         \<not> is_space (last (normalize_whitespace x)))"
    by (rule normalize_whitespace_ends)
qed

section \<open>Configuration (config/settings.py)\<close>

text \<open>
  Python values as the configuration holds them and as JSON stores them. A dataclass field
  holds whatever object it was given, so every field is a \<open>pyval\<close>; a \<open>dict\<close> is an
  association list in insertion order. Floats are the finite ones, as reals.
\<close>

datatype pyval =
    PNone
  | PBool bool
  | PInt int
  | PFloat real
  | PStr string
  | PList "pyval list"
  | PDict "(string \<times> pyval) list"

record ConverterSettings =
  enable_builtins :: pyval
  enable_plugins :: pyval
  korean_support :: pyval
  max_workers :: pyval

record LLMSettings =
  openai_api_key :: pyval
  llm_model :: pyval
  max_tokens :: pyval
  temperature :: pyval

record AzureSettings =
  endpoint :: pyval
  key :: pyval
  enabled :: pyval

record OCRSettings =
  tesseract_path :: pyval
  easyocr_enabled :: pyval
  tesseract_enabled :: pyval
  languages :: pyval

record AudioSettings =
  whisper_model :: pyval
  local_whisper_enabled :: pyval
  openai_whisper_enabled :: pyval

record ServerSettings =
  log_level :: pyval
  log_file :: pyval
  enable_cors :: pyval
  max_file_size_mb :: pyval

record ConversionOptions =
  include_metadata :: pyval
  extract_images :: pyval
  korean_optimization :: pyval
  preserve_formatting :: pyval

record MarkItDownConfig =
  converters :: ConverterSettings
  llm :: LLMSettings
  azure :: AzureSettings
  ocr :: OCRSettings
  audio :: AudioSettings
  server :: ServerSettings
  conversion :: ConversionOptions

text \<open>The field defaults of the dataclasses.\<close>

definition ConverterSettings_default :: ConverterSettings where
  "ConverterSettings_default =
     \<lparr>enable_builtins = PBool True, enable_plugins = PBool True, korean_support = PBool True,
      max_workers = PInt 4\<rparr>"

definition LLMSettings_default :: LLMSettings where
  "LLMSettings_default =
     \<lparr>openai_api_key = PNone, llm_model = PStr ''gpt-4o'', max_tokens = PInt 300,
      temperature = PFloat 0.1\<rparr>"

definition AzureSettings_default :: AzureSettings where
  "AzureSettings_default = \<lparr>endpoint = PNone, key = PNone, enabled = PBool False\<rparr>"

definition OCRSettings_default :: OCRSettings where
  "OCRSettings_default =
     \<lparr>tesseract_path = PNone, easyocr_enabled = PBool True, tesseract_enabled = PBool True,
      languages = PList [PStr ''ko'', PStr ''en'']\<rparr>"

definition AudioSettings_default :: AudioSettings where
  "AudioSettings_default =
     \<lparr>whisper_model = PStr ''base'', local_whisper_enabled = PBool True,
      openai_whisper_enabled = PBool False\<rparr>"

definition ServerSettings_default :: ServerSettings where
  "ServerSettings_default =
     \<lparr>log_level = PStr ''INFO'', log_file = PNone, enable_cors = PBool False,
      max_file_size_mb = PInt 100\<rparr>"

definition ConversionOptions_default :: ConversionOptions where
  "ConversionOptions_default =
     \<lparr>include_metadata = PBool False, extract_images = PBool False,
      korean_optimization = PBool False, preserve_formatting = PBool True\<rparr>"

definition MarkItDownConfig_default :: MarkItDownConfig where
  "MarkItDownConfig_default =
     \<lparr>converters = ConverterSettings_default, llm = LLMSettings_default,
      azure = AzureSettings_default, ocr = OCRSettings_default, audio = AudioSettings_default,
      server = ServerSettings_default, conversion = ConversionOptions_default\<rparr>"

text \<open>\<open>dataclasses.asdict\<close>: the sections and their fields in declaration order.\<close>

definition asdict :: "MarkItDownConfig \<Rightarrow> pyval" where
  "asdict c =
     PDict
      [(''converters'', PDict
         [(''enable_builtins'', enable_builtins (converters c)),
          (''enable_plugins'', enable_plugins (converters c)),
          (''korean_support'', korean_support (converters c)),
          (''max_workers'', max_workers (converters c))]),
       (''llm'', PDict
         [(''openai_api_key'', openai_api_key (llm c)),
          (''llm_model'', llm_model (llm c)),
          (''max_tokens'', max_tokens (llm c)),
          (''temperature'', temperature (llm c))]),
       (''azure'', PDict
         [(''endpoint'', endpoint (azure c)),
          (''key'', key (azure c)),
          (''enabled'', enabled (azure c))]),
       (''ocr'', PDict
         [(''tesseract_path'', tesseract_path (ocr c)),
          (''easyocr_enabled'', easyocr_enabled (ocr c)),
          (''tesseract_enabled'', tesseract_enabled (ocr c)),
          (''languages'', languages (ocr c))]),
       (''audio'', PDict
         [(''whisper_model'', whisper_model (audio c)),
          (''local_whisper_enabled'', local_whisper_enabled (audio c)),
          (''openai_whisper_enabled'', openai_whisper_enabled (audio c))]),
       (''server'', PDict
         [(''log_level'', log_level (server c)),
          (''log_file'', log_file (server c)),
          (''enable_cors'', enable_cors (server c)),
          (''max_file_size_mb'', max_file_size_mb (server c))]),
       (''conversion'', PDict
         [(''include_metadata'', include_metadata (conversion c)),
          (''extract_images'', extract_images (conversion c)),
          (''korean_optimization'', korean_optimization (conversion c)),
          (''preserve_formatting'', preserve_formatting (conversion c))])]"

text \<open>
  The dataclass constructors called with keyword arguments (\<open>ConverterSettings(**d)\<close>): each
  keyword sets its field, the fields not named keep their defaults, and a keyword that is
  not a field raises \<open>TypeError\<close> (\<open>None\<close>).
\<close>

fun ConverterSettings_kwargs :: "(string \<times> pyval) list \<Rightarrow> ConverterSettings \<Rightarrow> ConverterSettings option" where
  "ConverterSettings_kwargs [] s = Some s"
| "ConverterSettings_kwargs ((k, v) # kvs) s =
     (if k = ''enable_builtins'' then ConverterSettings_kwargs kvs (s\<lparr>enable_builtins := v\<rparr>)
      else if k = ''enable_plugins'' then ConverterSettings_kwargs kvs (s\<lparr>enable_plugins := v\<rparr>)
      else if k = ''korean_support'' then ConverterSettings_kwargs kvs (s\<lparr>korean_support := v\<rparr>)
      else if k = ''max_workers'' then ConverterSettings_kwargs kvs (s\<lparr>max_workers := v\<rparr>)
      else None)"

fun LLMSettings_kwargs :: "(string \<times> pyval) list \<Rightarrow> LLMSettings \<Rightarrow> LLMSettings option" where
  "LLMSettings_kwargs [] s = Some s"
| "LLMSettings_kwargs ((k, v) # kvs) s =
     (if k = ''openai_api_key'' then LLMSettings_kwargs kvs (s\<lparr>openai_api_key := v\<rparr>)
      else if k = ''llm_model'' then LLMSettings_kwargs kvs (s\<lparr>llm_model := v\<rparr>)
      else if k = ''max_tokens'' then LLMSettings_kwargs kvs (s\<lparr>max_tokens := v\<rparr>)
      else if k = ''temperature'' then LLMSettings_kwargs kvs (s\<lparr>temperature := v\<rparr>)
      else None)"

fun AzureSettings_kwargs :: "(string \<times> pyval) list \<Rightarrow> AzureSettings \<Rightarrow> AzureSettings option" where
  "AzureSettings_kwargs [] s = Some s"
| "AzureSettings_kwargs ((k, v) # kvs) s =
     (if k = ''endpoint'' then AzureSettings_kwargs kvs (s\<lparr>endpoint := v\<rparr>)
      else if k = ''key'' then AzureSettings_kwargs kvs (s\<lparr>key := v\<rparr>)
      else if k = ''enabled'' then AzureSettings_kwargs kvs (s\<lparr>enabled := v\<rparr>)
      else None)"

fun OCRSettings_kwargs :: "(string \<times> pyval) list \<Rightarrow> OCRSettings \<Rightarrow> OCRSettings option" where
  "OCRSettings_kwargs [] s = Some s"
| "OCRSettings_kwargs ((k, v) # kvs) s =
     (if k = ''tesseract_path'' then OCRSettings_kwargs kvs (s\<lparr>tesseract_path := v\<rparr>)
      else if k = ''easyocr_enabled'' then OCRSettings_kwargs kvs (s\<lparr>easyocr_enabled := v\<rparr>)
      else if k = ''tesseract_enabled'' then OCRSettings_kwargs kvs (s\<lparr>tesseract_enabled := v\<rparr>)
      else if k = ''languages'' then OCRSettings_kwargs kvs (s\<lparr>languages := v\<rparr>)
      else None)"

fun AudioSettings_kwargs :: "(string \<times> pyval) list \<Rightarrow> AudioSettings \<Rightarrow> AudioSettings option" where
  "AudioSettings_kwargs [] s = Some s"
| "AudioSettings_kwargs ((k, v) # kvs) s =
     (if k = ''whisper_model'' then AudioSettings_kwargs kvs (s\<lparr>whisper_model := v\<rparr>)
      else if k = ''local_whisper_enabled''
        then AudioSettings_kwargs kvs (s\<lparr>local_whisper_enabled := v\<rparr>)
      else if k = ''openai_whisper_enabled''
        then AudioSettings_kwargs kvs (s\<lparr>openai_whisper_enabled := v\<rparr>)
      else None)"

fun ServerSettings_kwargs :: "(string \<times> pyval) list \<Rightarrow> ServerSettings \<Rightarrow> ServerSettings option" where
  "ServerSettings_kwargs [] s = Some s"
| "ServerSettings_kwargs ((k, v) # kvs) s =
     (if k = ''log_level'' then ServerSettings_kwargs kvs (s\<lparr>log_level := v\<rparr>)
      else if k = ''log_file'' then ServerSettings_kwargs kvs (s\<lparr>log_file := v\<rparr>)
      else if k = ''enable_cors'' then ServerSettings_kwargs kvs (s\<lparr>enable_cors := v\<rparr>)
      else if k = ''max_file_size_mb'' then ServerSettings_kwargs kvs (s\<lparr>max_file_size_mb := v\<rparr>)
      else None)"

fun ConversionOptions_kwargs :: "(string \<times> pyval) list \<Rightarrow> ConversionOptions \<Rightarrow> ConversionOptions option" where
  "ConversionOptions_kwargs [] s = Some s"
| "ConversionOptions_kwargs ((k, v) # kvs) s =
     (if k = ''include_metadata'' then ConversionOptions_kwargs kvs (s\<lparr>include_metadata := v\<rparr>)
      else if k = ''extract_images'' then ConversionOptions_kwargs kvs (s\<lparr>extract_images := v\<rparr>)
      else if k = ''korean_optimization''
        then ConversionOptions_kwargs kvs (s\<lparr>korean_optimization := v\<rparr>)
      else if k = ''preserve_formatting''
        then ConversionOptions_kwargs kvs (s\<lparr>preserve_formatting := v\<rparr>)
      else None)"

text \<open>
  \<open>name in data\<close> and \<open>data[name]\<close> for a string \<open>name\<close>. On a dict they test and read the
  key; on a list \<open>in\<close> is membership and on a string it is the substring test, and indexing
  either with a string raises; on any other value \<open>in\<close> raises. \<open>None\<close> is the exception.
\<close>

definition py_contains :: "string \<Rightarrow> pyval \<Rightarrow> bool option" where
  "py_contains name data =
     (case data of
        PDict kvs \<Rightarrow> Some (name \<in> set (map fst kvs))
      | PList xs \<Rightarrow> Some (PStr name \<in> set xs)
      | PStr s \<Rightarrow> Some (sublist name s)
      | _ \<Rightarrow> None)"

definition py_getitem :: "pyval \<Rightarrow> string \<Rightarrow> pyval option" where
  "py_getitem data name = (case data of PDict kvs \<Rightarrow> map_of kvs name | _ \<Rightarrow> None)"

text \<open>
  One \<open>if name in data: config.name = Settings(**data[name])\<close> step of \<open>_dict_to_config\<close>:
  the section built from the dict, the default section when the name is absent, \<open>None\<close> when
  anything raises (\<open>**\<close> needs a mapping).
\<close>

definition section_of ::
  "string \<Rightarrow> pyval \<Rightarrow> ((string \<times> pyval) list \<Rightarrow> 'a \<Rightarrow> 'a option) \<Rightarrow> 'a \<Rightarrow> 'a option" where
  "section_of name data kwargs dflt =
     (case py_contains name data of
        None \<Rightarrow> None
      | Some False \<Rightarrow> Some dflt
      | Some True \<Rightarrow>
          (case py_getitem data name of
             Some (PDict kvs) \<Rightarrow> kwargs kvs dflt
           | _ \<Rightarrow> None))"

definition dict_to_config :: "pyval \<Rightarrow> MarkItDownConfig option" where
  "dict_to_config data =
     (case section_of ''converters'' data ConverterSettings_kwargs ConverterSettings_default of
        None \<Rightarrow> None
      | Some c1 \<Rightarrow>
     (case section_of ''llm'' data LLMSettings_kwargs LLMSettings_default of
        None \<Rightarrow> None
      | Some c2 \<Rightarrow>
     (case section_of ''azure'' data AzureSettings_kwargs AzureSettings_default of
        None \<Rightarrow> None
      | Some c3 \<Rightarrow>
     (case section_of ''ocr'' data OCRSettings_kwargs OCRSettings_default of
        None \<Rightarrow> None
      | Some c4 \<Rightarrow>
     (case section_of ''audio'' data AudioSettings_kwargs AudioSettings_default of
        None \<Rightarrow> None
      | Some c5 \<Rightarrow>
     (case section_of ''server'' data ServerSettings_kwargs ServerSettings_default of
        None \<Rightarrow> None
      | Some c6 \<Rightarrow>
     (case section_of ''conversion'' data ConversionOptions_kwargs ConversionOptions_default of
        None \<Rightarrow> None
      | Some c7 \<Rightarrow>
          Some \<lparr>converters = c1, llm = c2, azure = c3, ocr = c4, audio = c5, server = c6,
                conversion = c7\<rparr>)))))))"

text \<open>
  \<open>_load_from_environment\<close>. The environment is a map from names to values. Each entry of
  \<open>env_mappings\<close> is the variable with the reader and the writer of its field
  (\<open>getattr\<close>/\<open>setattr\<close> on the section). The value is converted according to the type of
  the field's current value; Python's \<open>int\<close> and \<open>float\<close> parsers are the parameters
  \<open>py_int\<close> and \<open>py_float\<close> (\<open>None\<close> for \<open>ValueError\<close>, which skips the variable).
\<close>

definition env_mappings ::
  "(string \<times> (MarkItDownConfig \<Rightarrow> pyval) \<times> (pyval \<Rightarrow> MarkItDownConfig \<Rightarrow> MarkItDownConfig)) list" where
  "env_mappings =
     [(''OPENAI_API_KEY'', (\<lambda>c. openai_api_key (llm c)),
         (\<lambda>v c. c\<lparr>llm := (llm c)\<lparr>openai_api_key := v\<rparr>\<rparr>)),
      (''LLM_MODEL'', (\<lambda>c. llm_model (llm c)),
         (\<lambda>v c. c\<lparr>llm := (llm c)\<lparr>llm_model := v\<rparr>\<rparr>)),
      (''AZURE_DOCUMENT_INTELLIGENCE_ENDPOINT'', (\<lambda>c. endpoint (azure c)),
         (\<lambda>v c. c\<lparr>azure := (azure c)\<lparr>endpoint := v\<rparr>\<rparr>)),
      (''AZURE_DOCUMENT_INTELLIGENCE_KEY'', (\<lambda>c. key (azure c)),
         (\<lambda>v c. c\<lparr>azure := (azure c)\<lparr>key := v\<rparr>\<rparr>)),
      (''TESSERACT_PATH'', (\<lambda>c. tesseract_path (ocr c)),
         (\<lambda>v c. c\<lparr>ocr := (ocr c)\<lparr>tesseract_path := v\<rparr>\<rparr>)),
      (''WHISPER_MODEL'', (\<lambda>c. whisper_model (audio c)),
         (\<lambda>v c. c\<lparr>audio := (audio c)\<lparr>whisper_model := v\<rparr>\<rparr>)),
      (''LOG_LEVEL'', (\<lambda>c. log_level (server c)),
         (\<lambda>v c. c\<lparr>server := (server c)\<lparr>log_level := v\<rparr>\<rparr>)),
      (''LOG_FILE'', (\<lambda>c. log_file (server c)),
         (\<lambda>v c. c\<lparr>server := (server c)\<lparr>log_file := v\<rparr>\<rparr>)),
      (''KOREAN_SUPPORT'', (\<lambda>c. korean_support (converters c)),
         (\<lambda>v c. c\<lparr>converters := (converters c)\<lparr>korean_support := v\<rparr>\<rparr>)),
      (''MAX_WORKERS'', (\<lambda>c. max_workers (converters c)),
         (\<lambda>v c. c\<lparr>converters := (converters c)\<lparr>max_workers := v\<rparr>\<rparr>))]"

definition env_step ::
  "(string \<Rightarrow> int option) \<Rightarrow> (string \<Rightarrow> real option) \<Rightarrow> (string \<Rightarrow> string option)
     \<Rightarrow> MarkItDownConfig
     \<Rightarrow> string \<times> (MarkItDownConfig \<Rightarrow> pyval) \<times> (pyval \<Rightarrow> MarkItDownConfig \<Rightarrow> MarkItDownConfig)
     \<Rightarrow> MarkItDownConfig" where
  "env_step py_int py_float env c m =
     (case env (fst m) of
        None \<Rightarrow> c
      | Some v \<Rightarrow>
          (case fst (snd m) c of
             PBool b \<Rightarrow> snd (snd m) (PBool (lower v \<in> set [''true'', ''1'', ''yes'', ''on''])) c
           | PInt i \<Rightarrow> (case py_int v of Some n \<Rightarrow> snd (snd m) (PInt n) c | None \<Rightarrow> c)
           | PFloat f \<Rightarrow> (case py_float v of Some x \<Rightarrow> snd (snd m) (PFloat x) c | None \<Rightarrow> c)
           | _ \<Rightarrow> snd (snd m) (PStr v) c))"

definition load_from_environment ::
  "(string \<Rightarrow> int option) \<Rightarrow> (string \<Rightarrow> real option) \<Rightarrow> (string \<Rightarrow> string option)
     \<Rightarrow> MarkItDownConfig \<Rightarrow> MarkItDownConfig" where
  "load_from_environment py_int py_float env c = foldl (env_step py_int py_float env) c env_mappings"

text \<open>
  The file system as far as the configuration sees it: a path has no file, a file that
  \<open>json.load\<close> cannot read, or a JSON document. \<open>json.dump\<close> followed by \<open>json.load\<close> returns
  the value written (the \<open>json\<close> module is not part of the repository), so a stored
  document is the value itself; paths are their strings.
\<close>

datatype file_content = NotJson | JsonDoc pyval

type_synonym config_fs = "string \<Rightarrow> file_content option"

text \<open>\<open>_load_config\<close>: any exception while reading or converting leaves the defaults.\<close>

definition load_config ::
  "(string \<Rightarrow> int option) \<Rightarrow> (string \<Rightarrow> real option) \<Rightarrow> config_fs \<Rightarrow> (string \<Rightarrow> string option)
     \<Rightarrow> string \<Rightarrow> MarkItDownConfig" where
  "load_config py_int py_float fs env config_path' =
     load_from_environment py_int py_float env
       (case fs config_path' of
          None \<Rightarrow> MarkItDownConfig_default
        | Some NotJson \<Rightarrow> MarkItDownConfig_default
        | Some (JsonDoc data) \<Rightarrow>
            (case dict_to_config data of
               None \<Rightarrow> MarkItDownConfig_default
             | Some c \<Rightarrow> c))"

text \<open>\<open>_resolve_config_path\<close>; \<open>home\<close> is \<open>Path.home()\<close>.\<close>

definition resolve_config_path ::
  "string \<Rightarrow> config_fs \<Rightarrow> (string \<Rightarrow> string option) \<Rightarrow> string option \<Rightarrow> string" where
  "resolve_config_path home fs env config_path' =
     (case config_path' of
        Some p \<Rightarrow> if p \<noteq> [] then p else
          (if truthy (env ''MARKITDOWN_CONFIG'') then the (env ''MARKITDOWN_CONFIG'')
           else if fs ''markitdown_config.json'' \<noteq> None then ''markitdown_config.json''
           else if fs (home @ ''/.markitdown/config.json'') \<noteq> None
             then home @ ''/.markitdown/config.json''
           else ''markitdown_config.json'')
      | None \<Rightarrow>
          (if truthy (env ''MARKITDOWN_CONFIG'') then the (env ''MARKITDOWN_CONFIG'')
           else if fs ''markitdown_config.json'' \<noteq> None then ''markitdown_config.json''
           else if fs (home @ ''/.markitdown/config.json'') \<noteq> None
             then home @ ''/.markitdown/config.json''
           else ''markitdown_config.json''))"

record ConfigManager =
  config_path :: string
  config :: MarkItDownConfig

definition ConfigManager_init ::
  "(string \<Rightarrow> int option) \<Rightarrow> (string \<Rightarrow> real option) \<Rightarrow> string \<Rightarrow> config_fs
     \<Rightarrow> (string \<Rightarrow> string option) \<Rightarrow> string option \<Rightarrow> ConfigManager" where
  "ConfigManager_init py_int py_float home fs env config_path' =
     \<lparr>config_path = resolve_config_path home fs env config_path',
      config = load_config py_int py_float fs env
                 (resolve_config_path home fs env config_path')\<rparr>"

text \<open>\<open>save_config\<close> where the directory can be made and the file written: the file at the
  save path holds the document \<open>asdict(self.config)\<close>.\<close>

definition save_config :: "ConfigManager \<Rightarrow> string option \<Rightarrow> config_fs \<Rightarrow> config_fs" where
  "save_config self path fs =
     fs((if truthy path then the path else config_path self) \<mapsto> JsonDoc (asdict (config self)))"

text \<open>A configuration with a value other than the default in every section.\<close>

definition sample_config :: MarkItDownConfig where
  "sample_config =
     \<lparr>converters = \<lparr>enable_builtins = PBool True, enable_plugins = PBool False,
                     korean_support = PBool True, max_workers = PInt 8\<rparr>,
      llm = \<lparr>openai_api_key = PStr ''sk-test'', llm_model = PStr ''gpt-4o'',
              max_tokens = PInt 512, temperature = PFloat 0.7\<rparr>,
      azure = \<lparr>endpoint = PStr ''https://example.invalid'', key = PNone, enabled = PBool True\<rparr>,
      ocr = \<lparr>tesseract_path = PNone, easyocr_enabled = PBool False,
              tesseract_enabled = PBool True, languages = PList [PStr ''en'']\<rparr>,
      audio = \<lparr>whisper_model = PStr ''small'', local_whisper_enabled = PBool True,
                openai_whisper_enabled = PBool True\<rparr>,
      server = \<lparr>log_level = PStr ''DEBUG'', log_file = PStr ''server.log'',
                 enable_cors = PBool True, max_file_size_mb = PInt 10\<rparr>,
      conversion = \<lparr>include_metadata = PBool True, extract_images = PBool False,
                     korean_optimization = PBool True, preserve_formatting = PBool False\<rparr>\<rparr>"

lemma dict_to_config_asdict: "dict_to_config (asdict c) = Some c"
  by (simp add: dict_to_config_def asdict_def section_of_def py_contains_def py_getitem_def
      ConverterSettings_default_def LLMSettings_default_def AzureSettings_default_def
      OCRSettings_default_def AudioSettings_default_def ServerSettings_default_def
      ConversionOptions_default_def)

lemma load_from_environment_unset:
  assumes "\<forall>v\<in>set (map fst env_mappings). env v = None"
  shows "load_from_environment py_int py_float env c = c"
  using assms
  by (simp add: load_from_environment_def env_mappings_def env_step_def)

text \<open>
  Claim C7. When none of the environment variables that \<open>_load_from_environment\<close> reads is
  set, saving a manager's configuration with \<open>save_config\<close> to a path and constructing a
  \<open>ConfigManager\<close> on that path gives back a configuration equal to the saved one, section
  by section and field by field, for every configuration whose fields hold JSON values.
\<close>

theorem config_round_trip:
  assumes "\<forall>v\<in>set (map fst env_mappings). env v = None"
    and "path \<noteq> []"
  shows "config (ConfigManager_init py_int py_float home
                   (save_config self (Some path) fs) env (Some path)) = config self"
  using assms
  by (simp add: ConfigManager_init_def resolve_config_path_def save_config_def truthy_def
      load_config_def dict_to_config_asdict load_from_environment_unset)

text \<open>The round trip of the sample configuration, with an empty environment and an empty
  file system.\<close>

theorem config_round_trip_witness:
  "config (ConfigManager_init (\<lambda>s. None) (\<lambda>s. None) ''/home/user''
             (save_config \<lparr>config_path = ''markitdown_config.json'', config = sample_config\<rparr>
                (Some ''out/config.json'') (\<lambda>p. None))
             (\<lambda>v. None) (Some ''out/config.json''))
     = sample_config"
proof -
  have e: "\<forall>v\<in>set (map fst env_mappings). (\<lambda>v. None :: string option) v = None"
    by simp
  have p: "''out/config.json'' \<noteq> []" by simp
  show ?thesis
    using config_round_trip[OF e p, of "\<lambda>s. None" "\<lambda>s. None" "''/home/user''"
        "\<lparr>config_path = ''markitdown_config.json'', config = sample_config\<rparr>" "\<lambda>p. None"]
    by simp
qed

section \<open>Temporary files of the audio converter (converters/audio\_converter.py)\<close>

text \<open>
  The converter's capability flags, set by \<open>_check_dependencies\<close>, and the file system as
  the set of paths that exist. What the libraries and the operating system do during one
  call is given by an \<open>audio_world\<close>: the name \<open>NamedTemporaryFile\<close> creates (or the error it
  raises), whether copying the stream into it raises, whether pydub's loading raises, how
  its export ends (a failed export may leave a file behind), and the outcome of the steps
  that follow the preparation (transcription, metadata, Markdown assembly, title), which
  read the files and create or delete none.
\<close>

record AudioConverter =
  whisper_available :: bool
  openai_available :: bool
  pydub_available :: bool

datatype export_outcome = ExportOk | ExportFailed string bool

record audio_world =
  tmp_result :: "string + string"
  copy_error :: "string option"
  load_error :: "string option"
  export_result :: export_outcome
  body_result :: "string + DocumentConverterResult"

text \<open>\<open>file_path.rsplit('.', 1)[0]\<close>.\<close>

definition rsplit_dot_head :: "string \<Rightarrow> string" where
  "rsplit_dot_head p = (case rfind CHR ''.'' p of None \<Rightarrow> p | Some i \<Rightarrow> take i p)"

text \<open>\<open>_prepare_audio\<close>: the path to transcribe and the file system after it.\<close>

definition AudioConverter_prepare_audio ::
  "AudioConverter \<Rightarrow> audio_world \<Rightarrow> string \<Rightarrow> StreamInfo \<Rightarrow> string set \<Rightarrow> string \<times> string set" where
  "AudioConverter_prepare_audio self w file_path si fs =
     (let extension' = (case extension si of Some e \<Rightarrow> if e \<noteq> [] then e else ''.mp3''
                         | None \<Rightarrow> ''.mp3'')
      in if extension' \<in> set [''.mp3'', ''.wav''] \<and> whisper_available self then (file_path, fs)
         else if \<not> pydub_available self then (file_path, fs)
         else (case load_error w of
                 Some e \<Rightarrow> (file_path, fs)
               | None \<Rightarrow>
                   (case export_result w of
                      ExportOk \<Rightarrow>
                        (rsplit_dot_head file_path @ ''_converted.wav'',
                         insert (rsplit_dot_head file_path @ ''_converted.wav'') fs)
                    | ExportFailed e left \<Rightarrow>
                        (file_path,
                         if left then insert (rsplit_dot_head file_path @ ''_converted.wav'') fs
                         else fs))))"

text \<open>\<open>os.unlink\<close>: removing a path that does not exist raises \<open>OSError\<close>.\<close>

definition unlink :: "string \<Rightarrow> string set \<Rightarrow> unit + string set" where
  "unlink p fs = (if p \<in> fs then Inr (fs - {p}) else Inl ())"

text \<open>The \<open>finally\<close> block: both removals under one \<open>except OSError: pass\<close>.\<close>

definition cleanup :: "string \<Rightarrow> string \<Rightarrow> string set \<Rightarrow> string set" where
  "cleanup tmp_file_path audio_path fs =
     (case unlink tmp_file_path fs of
        Inl _ \<Rightarrow> fs
      | Inr fs1 \<Rightarrow>
          if audio_path \<noteq> tmp_file_path
          then (case unlink audio_path fs1 of Inl _ \<Rightarrow> fs1 | Inr fs2 \<Rightarrow> fs2)
          else fs1)"

text \<open>
  \<open>AudioConverter.convert\<close>: the result or the exception, and the file system it leaves.
  The temporary file is created and filled before the inner \<open>try\<close> is entered; every
  exception from the \<open>with\<close> block on is wrapped in \<open>FileConversionException\<close>.
\<close>

definition AudioConverter_convert ::
  "AudioConverter \<Rightarrow> audio_world \<Rightarrow> StreamInfo \<Rightarrow> string set
     \<Rightarrow> (exn + DocumentConverterResult) \<times> string set" where
  "AudioConverter_convert self w si fs =
     (if \<not> (whisper_available self \<or> openai_available self)
      then (Inl (MissingDependencyException
                  ''OpenAI Whisper or OpenAI API is required for audio conversion''), fs)
      else (case tmp_result w of
              Inl e \<Rightarrow> (Inl (FileConversionException (''Audio conversion failed: '' @ e)), fs)
            | Inr tmp_file_path \<Rightarrow>
                (case copy_error w of
                   Some e \<Rightarrow>
                     (Inl (FileConversionException (''Audio conversion failed: '' @ e)),
                      insert tmp_file_path fs)
                 | None \<Rightarrow>
                     (case AudioConverter_prepare_audio self w tmp_file_path si
                             (insert tmp_file_path fs) of
                        (audio_path, fs2) \<Rightarrow>
                          (case body_result w of
                             Inl e \<Rightarrow>
                               (Inl (FileConversionException (''Audio conversion failed: '' @ e)),
                                cleanup tmp_file_path audio_path fs2)
                           | Inr result \<Rightarrow>
                               (Inr result, cleanup tmp_file_path audio_path fs2))))))"

text \<open>A call on a FLAC stream that is re-encoded by pydub and transcribed by the remote API.\<close>

definition sample_audio_world :: audio_world where
  "sample_audio_world =
     \<lparr>tmp_result = Inr ''/tmp/tmpab12.flac'', copy_error = None, load_error = None,
      export_result = ExportOk,
      body_result = Inr \<lparr>markdown = [], title = None, metadata = []\<rparr>\<rparr>"

lemma prepare_audio_keeps:
  "AudioConverter_prepare_audio self w p si fs = (a, fs2) \<Longrightarrow>
     fs \<subseteq> fs2 \<and> (a \<noteq> p \<longrightarrow> a \<in> fs2)"
  by (auto simp add: AudioConverter_prepare_audio_def Let_def
      split: if_splits option.splits export_outcome.splits)

lemma cleanup_removes:
  "tmp \<in> fs \<Longrightarrow> a \<noteq> tmp \<longrightarrow> a \<in> fs \<Longrightarrow>
     tmp \<notin> cleanup tmp a fs \<and> (a \<noteq> tmp \<longrightarrow> a \<notin> cleanup tmp a fs) \<and> cleanup tmp a fs \<subseteq> fs"
  by (auto simp add: cleanup_def unlink_def)

lemma rfind_nth:
  assumes "rfind c s = Some i"
  shows "i < length s \<and> s ! i = c"
proof -
  let ?n = "length (takeWhile (\<lambda>x. x \<noteq> c) (rev s))"
  from assms have mem: "c \<in> set s" and i: "i = length s - 1 - ?n"
    by (auto simp add: rfind_def split: if_splits)
  have "takeWhile (\<lambda>x. x \<noteq> c) (rev s) \<noteq> rev s"
    using mem by (metis (mono_tags, lifting) set_rev set_takeWhileD)
  then have n: "?n < length (rev s)"
    by (metis length_takeWhile_le le_neq_implies_less takeWhile_eq_all_conv length_rev
        takeWhile_eq_take take_all_iff nat_less_le)
  then have "\<not> (rev s ! ?n \<noteq> c)" by (rule nth_length_takeWhile)
  then have "rev s ! ?n = c" by simp
  moreover have "rev s ! ?n = s ! (length s - Suc ?n)"
    using n by (simp add: rev_nth)
  ultimately show ?thesis using n i by simp
qed

lemma converted_path_distinct: "rsplit_dot_head p @ ''_converted.wav'' \<noteq> p"
proof (cases "rfind CHR ''.'' p")
  case None
  then show ?thesis by (simp add: rsplit_dot_head_def)
next
  case (Some i)
  from rfind_nth[OF Some] have i: "i < length p" and d: "p ! i = CHR ''.''" by auto
  have "(take i p @ ''_converted.wav'') ! i = CHR ''_''"
    using i by (simp add: nth_append)
  with d have "take i p @ ''_converted.wav'' \<noteq> p" by auto
  with Some show ?thesis by (simp add: rsplit_dot_head_def)
qed

lemma convert_copy_failed:
  assumes "whisper_available self \<or> openai_available self"
    and "tmp_result w = Inr tmp"
    and "copy_error w = Some e"
  shows "AudioConverter_convert self w si fs =
     (Inl (FileConversionException (''Audio conversion failed: '' @ e)), insert tmp fs)"
  using assms by (simp add: AudioConverter_convert_def)

lemma convert_copied:
  assumes "whisper_available self \<or> openai_available self"
    and "tmp_result w = Inr tmp"
    and "copy_error w = None"
  shows "snd (AudioConverter_convert self w si fs) =
     cleanup tmp (fst (AudioConverter_prepare_audio self w tmp si (insert tmp fs)))
       (snd (AudioConverter_prepare_audio self w tmp si (insert tmp fs)))"
  using assms by (simp add: AudioConverter_convert_def split: sum.splits prod.splits)

lemma convert_copied_removes:
  assumes "whisper_available self \<or> openai_available self"
    and "tmp_result w = Inr tmp"
    and "copy_error w = None"
  shows "tmp \<notin> snd (AudioConverter_convert self w si fs)
       \<and> (fst (AudioConverter_prepare_audio self w tmp si (insert tmp fs)) = tmp
            \<or> fst (AudioConverter_prepare_audio self w tmp si (insert tmp fs))
                 \<notin> snd (AudioConverter_convert self w si fs))"
proof -
  obtain a fs2 where p: "AudioConverter_prepare_audio self w tmp si (insert tmp fs) = (a, fs2)"
    by (cases "AudioConverter_prepare_audio self w tmp si (insert tmp fs)")
  from prepare_audio_keeps[OF p] have k: "tmp \<in> fs2" "a \<noteq> tmp \<longrightarrow> a \<in> fs2" by auto
  have c: "tmp \<notin> cleanup tmp a fs2 \<and> (a \<noteq> tmp \<longrightarrow> a \<notin> cleanup tmp a fs2)"
    using cleanup_removes[OF k] by simp
  have "snd (AudioConverter_convert self w si fs) = cleanup tmp a fs2"
    using convert_copied[OF assms, of si fs] p by simp
  with c p show ?thesis by auto
qed

lemma convert_partial_copy_left:
  assumes "whisper_available self \<or> openai_available self"
    and "tmp_result w = Inr tmp"
    and "copy_error w = None"
    and "(\<exists>x. extension si = Some x \<and> x \<noteq> [] \<and> x \<notin> set [''.mp3'', ''.wav''])
         \<or> \<not> whisper_available self"
    and "pydub_available self"
    and "load_error w = None"
    and "export_result w = ExportFailed e True"
  shows "rsplit_dot_head tmp @ ''_converted.wav'' \<in> snd (AudioConverter_convert self w si fs)"
proof -
  let ?wav = "rsplit_dot_head tmp @ ''_converted.wav''"
  have p: "AudioConverter_prepare_audio self w tmp si (insert tmp fs) =
             (tmp, insert ?wav (insert tmp fs))"
    using assms(4-7)
    by (auto simp add: AudioConverter_prepare_audio_def split: option.splits)
  have "cleanup tmp tmp (insert ?wav (insert tmp fs)) = insert ?wav (insert tmp fs) - {tmp}"
    by (simp add: cleanup_def unlink_def)
  with convert_copied[OF assms(1-3), of si fs] p converted_path_distinct[of tmp]
  show ?thesis by auto
qed

text \<open>
  Claim C9. In a call that has the dependencies and in which \<open>NamedTemporaryFile\<close> has
  created the temporary file \<open>tmp\<close>: (1) the file is still there when \<open>convert\<close> returns or
  raises exactly when copying the stream into it raised; (2) in that case \<open>convert\<close> raises
  \<open>FileConversionException\<close> and the file system is the initial one with \<open>tmp\<close> added:
  the exception leaves the \<open>with\<close> block before the inner \<open>try\<close> and its \<open>finally\<close> are
  reached; (3) when the copy completed, \<open>tmp\<close> is removed on every later path, and so is the
  path \<open>_prepare_audio\<close> returned when it differs from \<open>tmp\<close>; (4) when the copy completed
  and pydub's export raised after creating its output, \<open>_prepare_audio\<close> returns \<open>tmp\<close> and
  the partial copy \<open>..._converted.wav\<close> is still there after \<open>convert\<close>.
\<close>

theorem audio_temp_file_left_iff_copy_fails:
  assumes "whisper_available self \<or> openai_available self"
    and "tmp_result w = Inr tmp"
  shows "(tmp \<in> snd (AudioConverter_convert self w si fs) \<longleftrightarrow> copy_error w \<noteq> None)
       \<and> (\<forall>e. copy_error w = Some e \<longrightarrow>
             AudioConverter_convert self w si fs =
               (Inl (FileConversionException (''Audio conversion failed: '' @ e)), insert tmp fs))
       \<and> (copy_error w = None \<longrightarrow>
             fst (AudioConverter_prepare_audio self w tmp si (insert tmp fs)) = tmp
             \<or> fst (AudioConverter_prepare_audio self w tmp si (insert tmp fs))
                  \<notin> snd (AudioConverter_convert self w si fs))
       \<and> (\<forall>e. copy_error w = None
               \<and> ((\<exists>x. extension si = Some x \<and> x \<noteq> [] \<and> x \<notin> set [''.mp3'', ''.wav''])
                    \<or> \<not> whisper_available self)
               \<and> pydub_available self \<and> load_error w = None
               \<and> export_result w = ExportFailed e True \<longrightarrow>
             rsplit_dot_head tmp @ ''_converted.wav''
               \<in> snd (AudioConverter_convert self w si fs))"
proof (intro conjI allI impI)
  show "tmp \<in> snd (AudioConverter_convert self w si fs) \<longleftrightarrow> copy_error w \<noteq> None"
  proof (cases "copy_error w")
    case None
    with convert_copied_removes[OF assms None, of si fs] show ?thesis by simp
  next
    case (Some e)
    with convert_copy_failed[OF assms Some, of si fs] show ?thesis by simp
  qed
next
  fix e assume "copy_error w = Some e"
  with assms show "AudioConverter_convert self w si fs =
       (Inl (FileConversionException (''Audio conversion failed: '' @ e)), insert tmp fs)"
    by (rule convert_copy_failed)
next
  assume "copy_error w = None"
  with convert_copied_removes[OF assms this, of si fs]
  show "fst (AudioConverter_prepare_audio self w tmp si (insert tmp fs)) = tmp
        \<or> fst (AudioConverter_prepare_audio self w tmp si (insert tmp fs))
             \<notin> snd (AudioConverter_convert self w si fs)"
    by simp
next
  fix e
  assume a: "copy_error w = None
     \<and> ((\<exists>x. extension si = Some x \<and> x \<noteq> [] \<and> x \<notin> set [''.mp3'', ''.wav''])
          \<or> \<not> whisper_available self)
     \<and> pydub_available self \<and> load_error w = None
     \<and> export_result w = ExportFailed e True"
  show "rsplit_dot_head tmp @ ''_converted.wav'' \<in> snd (AudioConverter_convert self w si fs)"
    using a by (elim conjE) (rule convert_partial_copy_left[OF assms]; assumption)
qed

text \<open>
  Three calls on a FLAC stream with the temporary file \<open>/tmp/tmpab12.flac\<close>. When writing the
  stream into it raises, \<open>convert\<close> raises and leaves the file. When the copy and the
  re-encoding succeed, neither the file nor \<open>/tmp/tmpab12_converted.wav\<close> is left. When the
  export raises after creating its output, the temporary file is removed and the partial
  copy is left.
\<close>

theorem audio_temp_file_left_iff_copy_fails_witness:
  "AudioConverter_convert
      \<lparr>whisper_available = False, openai_available = True, pydub_available = True\<rparr>
      (sample_audio_world\<lparr>copy_error := Some ''No space left on device''\<rparr>)
      \<lparr>mimetype = Some ''audio/flac'', extension = Some ''.flac'', charset = None,
       filename = None, local_path = None, url = None\<rparr> {}
     = (Inl (FileConversionException ''Audio conversion failed: No space left on device''),
        {''/tmp/tmpab12.flac''})
   \<and> fst (AudioConverter_prepare_audio
         \<lparr>whisper_available = False, openai_available = True, pydub_available = True\<rparr>
         sample_audio_world ''/tmp/tmpab12.flac''
         \<lparr>mimetype = Some ''audio/flac'', extension = Some ''.flac'', charset = None,
          filename = None, local_path = None, url = None\<rparr>
         (insert ''/tmp/tmpab12.flac'' {})) = ''/tmp/tmpab12_converted.wav''
   \<and> ''/tmp/tmpab12.flac'' \<notin> snd (AudioConverter_convert
         \<lparr>whisper_available = False, openai_available = True, pydub_available = True\<rparr>
         sample_audio_world
         \<lparr>mimetype = Some ''audio/flac'', extension = Some ''.flac'', charset = None,
          filename = None, local_path = None, url = None\<rparr> {})
   \<and> ''/tmp/tmpab12_converted.wav'' \<notin> snd (AudioConverter_convert
         \<lparr>whisper_available = False, openai_available = True, pydub_available = True\<rparr>
         sample_audio_world
         \<lparr>mimetype = Some ''audio/flac'', extension = Some ''.flac'', charset = None,
          filename = None, local_path = None, url = None\<rparr> {})
   \<and> ''/tmp/tmpab12.flac'' \<notin> snd (AudioConverter_convert
         \<lparr>whisper_available = False, openai_available = True, pydub_available = True\<rparr>
         (sample_audio_world\<lparr>export_result := ExportFailed ''encoder failed'' True\<rparr>)
         \<lparr>mimetype = Some ''audio/flac'', extension = Some ''.flac'', charset = None,
          filename = None, local_path = None, url = None\<rparr> {})
   \<and> ''/tmp/tmpab12_converted.wav'' \<in> snd (AudioConverter_convert
         \<lparr>whisper_available = False, openai_available = True, pydub_available = True\<rparr>
         (sample_audio_world\<lparr>export_result := ExportFailed ''encoder failed'' True\<rparr>)
         \<lparr>mimetype = Some ''audio/flac'', extension = Some ''.flac'', charset = None,
          filename = None, local_path = None, url = None\<rparr> {})"
proof -
  let ?self = "\<lparr>whisper_available = False, openai_available = True, pydub_available = True\<rparr>"
  let ?si = "\<lparr>mimetype = Some ''audio/flac'', extension = Some ''.flac'', charset = None,
          filename = None, local_path = None, url = None\<rparr>"
  let ?w1 = "sample_audio_world\<lparr>copy_error := Some ''No space left on device''\<rparr>"
  let ?w3 = "sample_audio_world\<lparr>export_result := ExportFailed ''encoder failed'' True\<rparr>"
  let ?tmp = "''/tmp/tmpab12.flac''"
  have d: "whisper_available ?self \<or> openai_available ?self" by simp
  have t1: "tmp_result ?w1 = Inr ?tmp" by (simp add: sample_audio_world_def)
  have t2: "tmp_result sample_audio_world = Inr ?tmp" by (simp add: sample_audio_world_def)
  have t3: "tmp_result ?w3 = Inr ?tmp" by (simp add: sample_audio_world_def)
  have k1: "copy_error ?w1 = Some ''No space left on device''" by simp
  have k2: "copy_error sample_audio_world = None" by (simp add: sample_audio_world_def)
  have k3: "copy_error ?w3 = None
     \<and> ((\<exists>x. extension ?si = Some x \<and> x \<noteq> [] \<and> x \<notin> set [''.mp3'', ''.wav''])
          \<or> \<not> whisper_available ?self)
     \<and> pydub_available ?self \<and> load_error ?w3 = None
     \<and> export_result ?w3 = ExportFailed ''encoder failed'' True"
    by (simp add: sample_audio_world_def)
  have w: "rsplit_dot_head ?tmp @ ''_converted.wav'' = ''/tmp/tmpab12_converted.wav''"
    by (simp add: rsplit_dot_head_def rfind_def)
  have p: "fst (AudioConverter_prepare_audio ?self sample_audio_world ?tmp ?si
             (insert ?tmp {})) = ''/tmp/tmpab12_converted.wav''"
    by (simp add: AudioConverter_prepare_audio_def sample_audio_world_def rsplit_dot_head_def
        rfind_def)
  from audio_temp_file_left_iff_copy_fails[OF d t1, of ?si "{}"] k1
  have c1: "AudioConverter_convert ?self ?w1 ?si {} =
      (Inl (FileConversionException ''Audio conversion failed: No space left on device''),
       {?tmp})"
    by simp
  from audio_temp_file_left_iff_copy_fails[OF d t2, of ?si "{}"] k2 p
  have c2: "?tmp \<notin> snd (AudioConverter_convert ?self sample_audio_world ?si {})
      \<and> ''/tmp/tmpab12_converted.wav'' \<notin> snd (AudioConverter_convert ?self sample_audio_world ?si {})"
    by simp
  from audio_temp_file_left_iff_copy_fails[OF d t3, of ?si "{}"] k3 w
  have c3: "?tmp \<notin> snd (AudioConverter_convert ?self ?w3 ?si {})
      \<and> ''/tmp/tmpab12_converted.wav'' \<in> snd (AudioConverter_convert ?self ?w3 ?si {})"
    by (metis (no_types, lifting))
  from c1 p c2 c3 show ?thesis by simp
qed

section \<open>Structural analysis (core/markitdown.py)\<close>

text \<open>
  The patterns of \<open>_extract_headings\<close>, \<open>_extract_images\<close>, \<open>_extract_tables\<close> and
  \<open>_extract_links\<close> are raw strings in which every backslash is written twice, so \<open>re\<close> reads
  \<open>\\\<close> as one literal backslash and the character after it as itself. They are embedded
  as \<open>re\<close> compiles them.

  Matchers that record positions: the result is the list of the rests of the subject at the
  marks, in order, and the rest at the end of the match. \<open>cap_upto n\<close> is a greedy
  repetition of at most \<open>n\<close>; \<open>cap_eol\<close> is \<open>$\<close> under \<open>re.MULTILINE\<close>.
\<close>

definition cap_end :: "ustr \<Rightarrow> (ustr list \<times> ustr) option" where
  "cap_end s = Some ([], s)"

definition cap_mark :: "(ustr \<Rightarrow> (ustr list \<times> ustr) option) \<Rightarrow> ustr \<Rightarrow> (ustr list \<times> ustr) option" where
  "cap_mark k s = map_option (\<lambda>r. (s # fst r, snd r)) (k s)"

fun cap_one ::
  "(nat \<Rightarrow> bool) \<Rightarrow> (ustr \<Rightarrow> (ustr list \<times> ustr) option) \<Rightarrow> ustr \<Rightarrow> (ustr list \<times> ustr) option" where
  "cap_one P k [] = None"
| "cap_one P k (c # cs) = (if P c then k cs else None)"

fun cap_star ::
  "(nat \<Rightarrow> bool) \<Rightarrow> (ustr \<Rightarrow> (ustr list \<times> ustr) option) \<Rightarrow> ustr \<Rightarrow> (ustr list \<times> ustr) option" where
  "cap_star P k [] = k []"
| "cap_star P k (c # cs) =
     (if P c then (case cap_star P k cs of Some r \<Rightarrow> Some r | None \<Rightarrow> k (c # cs))
      else k (c # cs))"

fun cap_upto ::
  "nat \<Rightarrow> (nat \<Rightarrow> bool) \<Rightarrow> (ustr \<Rightarrow> (ustr list \<times> ustr) option) \<Rightarrow> ustr
     \<Rightarrow> (ustr list \<times> ustr) option" where
  "cap_upto 0 P k s = k s"
| "cap_upto (Suc n) P k [] = k []"
| "cap_upto (Suc n) P k (c # cs) =
     (if P c then (case cap_upto n P k cs of Some r \<Rightarrow> Some r | None \<Rightarrow> k (c # cs))
      else k (c # cs))"

definition cap_eol :: "(ustr \<Rightarrow> (ustr list \<times> ustr) option) \<Rightarrow> ustr \<Rightarrow> (ustr list \<times> ustr) option" where
  "cap_eol k s = (case s of [] \<Rightarrow> k [] | c # cs \<Rightarrow> if c = 10 then k s else None)"

text \<open>The characters the patterns name: \<open>#\<close>, the backslash, \<open>s\<close>, \<open>n\<close>, and \<open>.\<close> (anything
  but a newline).\<close>

definition is_hash :: "nat \<Rightarrow> bool" where "is_hash c \<longleftrightarrow> c = 35"
definition is_backslash :: "nat \<Rightarrow> bool" where "is_backslash c \<longleftrightarrow> c = 92"
definition is_s :: "nat \<Rightarrow> bool" where "is_s c \<longleftrightarrow> c = 115"
definition is_n :: "nat \<Rightarrow> bool" where "is_n c \<longleftrightarrow> c = 110"
definition is_dot :: "nat \<Rightarrow> bool" where "is_dot c \<longleftrightarrow> c \<noteq> 10"

text \<open>
  The heading pattern as compiled, from the line start on: one to six \<open>#\<close> (group 1), a
  backslash, one or more letters \<open>s\<close>, one or more characters of the line (group 2), the end
  of the line. The marks are the end of group 1 and the start of group 2.
\<close>

definition heading_pattern :: "ustr \<Rightarrow> (ustr list \<times> ustr) option" where
  "heading_pattern =
     cap_one is_hash (cap_upto 5 is_hash (cap_mark
       (cap_one is_backslash (cap_one is_s (cap_star is_s (cap_mark
         (cap_one is_dot (cap_star is_dot (cap_eol cap_end)))))))))"

text \<open>
  \<open>re.finditer\<close> for a pattern without empty matches: the matches from left to right, each
  with its start position, the subject from there on and the matcher's result. The flag
  says whether the position is at the start of a line (\<open>^\<close> under \<open>re.MULTILINE\<close>).
\<close>

definition span_len :: "ustr \<Rightarrow> (ustr list \<times> ustr) \<Rightarrow> nat" where
  "span_len s r = length s - length (snd r)"

function finditer ::
  "(bool \<Rightarrow> ustr \<Rightarrow> (ustr list \<times> ustr) option) \<Rightarrow> bool \<Rightarrow> nat \<Rightarrow> ustr
     \<Rightarrow> (nat \<times> ustr \<times> (ustr list \<times> ustr)) list" where
  "finditer m bol pos [] = []"
| "finditer m bol pos (c # cs) =
     (case m bol (c # cs) of
        None \<Rightarrow> finditer m (c = 10) (Suc pos) cs
      | Some r \<Rightarrow>
          if 0 < span_len (c # cs) r
          then (pos, c # cs, r)
                 # finditer m (last (take (span_len (c # cs) r) (c # cs)) = 10)
                     (pos + span_len (c # cs) r) (drop (span_len (c # cs) r) (c # cs))
          else finditer m (c = 10) (Suc pos) cs)"
  by pat_completeness auto
termination
  by (relation "measure (\<lambda>(m, bol, pos, s). length s)") auto

text \<open>\<open>s.count(sub)\<close> and \<open>s.split(sep)\<close> for a non-empty \<open>sub\<close>: occurrences are taken from
  left to right without overlap.\<close>

fun count_sub :: "'a list \<Rightarrow> 'a list \<Rightarrow> nat" where
  "count_sub sub [] = 0"
| "count_sub sub (c # cs) =
     (if sub \<noteq> [] \<and> take (length sub) (c # cs) = sub
      then Suc (count_sub sub (drop (length sub - 1) cs))
      else count_sub sub cs)"

fun split_str :: "'a list \<Rightarrow> 'a list \<Rightarrow> 'a list list" where
  "split_str sep [] = [[]]"
| "split_str sep (c # cs) =
     (if sep \<noteq> [] \<and> take (length sep) (c # cs) = sep
      then [] # split_str sep (drop (length sep - 1) cs)
      else (case split_str sep cs of [] \<Rightarrow> [[c]] | p # ps \<Rightarrow> (c # p) # ps))"

text \<open>The two-character string the source writes for a line break: a backslash and \<open>n\<close>.\<close>

definition backslash_n :: ustr where
  "backslash_n = [92, 110]"

record heading =
  h_level :: nat
  h_text :: ustr
  h_line :: nat

definition extract_headings :: "ustr \<Rightarrow> heading list" where
  "extract_headings markdown' =
     map (\<lambda>mt. case mt of (start, s, r) \<Rightarrow>
            \<lparr>h_level = length s - length (hd (fst r)),
             h_text = py_strip (take (length (hd (tl (fst r))) - length (snd r)) (hd (tl (fst r)))),
             h_line = count_sub backslash_n (take start markdown') + 1\<rparr>)
         (finditer (\<lambda>bol s. if bol then heading_pattern s else None) True 0 markdown')"

text \<open>
  The image pattern and the link pattern do not compile: after the doubling, the first
  \<open>[\<close> opens a character class that the next \<open>]\<close> closes, and the \<open>)\<close> that was meant to end
  group 1 has no opening parenthesis. \<open>re.finditer\<close> raises \<open>re.error\<close> on every call.
\<close>

datatype py_error = ReError string

record image_entry =
  i_alt_text :: ustr
  i_url :: ustr
  i_line :: nat

record link_entry =
  l_text :: ustr
  l_url :: ustr
  l_line :: nat

definition extract_images :: "ustr \<Rightarrow> py_error + image_entry list" where
  "extract_images markdown' = Inl (ReError ''unbalanced parenthesis at position 12'')"

definition extract_links :: "ustr \<Rightarrow> py_error + link_entry list" where
  "extract_links markdown' = Inl (ReError ''unbalanced parenthesis at position 11'')"

text \<open>
  The table pattern as compiled is one group of three alternatives: a backslash; or one or
  more characters other than a backslash and \<open>n\<close>, then a backslash; or one or more rounds
  of (backslash \<open>n\<close> backslash, or the second alternative, or nothing). A round that matches
  nothing ends the repetition, so the third alternative always matches, possibly the empty
  string. \<open>alt\<close> is \<open>|\<close> where nothing follows the alternatives.
\<close>

definition alt :: "(ustr \<Rightarrow> nat option) \<Rightarrow> (ustr \<Rightarrow> nat option) \<Rightarrow> ustr \<Rightarrow> nat option" where
  "alt a b s = (case a s of Some n \<Rightarrow> Some n | None \<Rightarrow> b s)"

definition not_backslash_n :: "nat \<Rightarrow> bool" where
  "not_backslash_n c \<longleftrightarrow> c \<noteq> 92 \<and> c \<noteq> 110"

definition table_alt1 :: "ustr \<Rightarrow> nat option" where
  "table_alt1 = one_of is_backslash accept"

definition table_alt2 :: "ustr \<Rightarrow> nat option" where
  "table_alt2 = one_of not_backslash_n (star_of not_backslash_n (one_of is_backslash accept))"

definition table_round :: "ustr \<Rightarrow> nat option" where
  "table_round = alt (one_of is_backslash (one_of is_n (one_of is_backslash accept))) table_alt2"

fun table_rounds :: "nat \<Rightarrow> ustr \<Rightarrow> nat" where
  "table_rounds 0 s = 0"
| "table_rounds (Suc fuel) s =
     (case table_round s of
        Some (Suc n) \<Rightarrow> Suc n + table_rounds fuel (drop (Suc n) s)
      | Some 0 \<Rightarrow> 0
      | None \<Rightarrow> 0)"

definition table_pattern :: "ustr \<Rightarrow> nat option" where
  "table_pattern = alt table_alt1 (alt table_alt2 (\<lambda>s. Some (table_rounds (length s) s)))"

text \<open>
  \<open>re.finditer\<close> for a pattern that may match the empty string: an empty match is reported
  and the scan moves one character on (at that position the pattern has no other match);
  the end of the subject is a position too.
\<close>

fun finditer_spans :: "(ustr \<Rightarrow> nat option) \<Rightarrow> nat \<Rightarrow> ustr \<Rightarrow> (nat \<times> ustr) list" where
  "finditer_spans m pos [] = (case m [] of Some n \<Rightarrow> [(pos, [])] | None \<Rightarrow> [])"
| "finditer_spans m pos (c # cs) =
     (case m (c # cs) of
        Some (Suc n) \<Rightarrow> (pos, take (Suc n) (c # cs)) # finditer_spans m (pos + Suc n) (drop n cs)
      | Some 0 \<Rightarrow> (pos, []) # finditer_spans m (Suc pos) cs
      | None \<Rightarrow> finditer_spans m (Suc pos) cs)"

record table_entry =
  t_columns :: int
  t_rows :: nat
  t_header :: ustr
  t_line :: nat

definition extract_tables :: "ustr \<Rightarrow> table_entry list" where
  "extract_tables markdown' =
     map (\<lambda>mt. case mt of (start, table_text) \<Rightarrow>
            (let lines = split_str backslash_n table_text;
                 header_line = (case lines of [] \<Rightarrow> [] | l # ls \<Rightarrow> l);
                 data_lines = (if 2 < length lines then drop 2 lines else [])
             in \<lparr>t_columns = int (length (split_str [124] header_line)) - 2,
                 t_rows = length data_lines,
                 t_header = py_strip header_line,
                 t_line = count_sub backslash_n (take start markdown') + 1\<rparr>))
         (finditer_spans table_pattern 0 markdown')"

text \<open>\<open>_detect_document_type\<close>, \<open>len(text.split())\<close> (the number of maximal runs of
  characters that are not whitespace) and \<open>_detect_language\<close> (with
  \<open>is_korean_text\<close> of utils/format\_utils.py; the ratios are compared exactly).\<close>

definition ustr_of :: "string \<Rightarrow> ustr" where
  "ustr_of s = map of_char s"

definition detect_document_type :: "ustr \<Rightarrow> string" where
  "detect_document_type markdown' =
     (if 20 < count_sub [124] markdown' then ''spreadsheet''
      else if 5 < count_sub [96, 96, 96] markdown' then ''technical''
      else if 5 < count_sub [33, 91] markdown' then ''presentation''
      else if 10 < count_sub [93, 40] markdown' then ''webpage''
      else ''document'')"

fun count_words_from :: "bool \<Rightarrow> ustr \<Rightarrow> nat" where
  "count_words_from in_word [] = 0"
| "count_words_from in_word (c # cs) =
     (if is_space c then count_words_from False cs
      else (if in_word then 0 else 1) + count_words_from True cs)"

definition count_words :: "ustr \<Rightarrow> nat" where
  "count_words s = count_words_from False s"

definition is_hangul :: "nat \<Rightarrow> bool" where
  "is_hangul c \<longleftrightarrow> 44032 \<le> c \<and> c \<le> 55203"

definition is_ascii_letter :: "nat \<Rightarrow> bool" where
  "is_ascii_letter c \<longleftrightarrow> (65 \<le> c \<and> c \<le> 90) \<or> (97 \<le> c \<and> c \<le> 122)"

definition is_korean_text :: "ustr \<Rightarrow> bool" where
  "is_korean_text text' =
     (if text' = [] then False
      else if length (filter (\<lambda>c. is_hangul c \<or> is_ascii_letter c) text') = 0 then False
      else 3 / 10 \<le> real (length (filter is_hangul text'))
                     / real (length (filter (\<lambda>c. is_hangul c \<or> is_ascii_letter c) text')))"

definition detect_language :: "ustr \<Rightarrow> string" where
  "detect_language text' =
     (if is_korean_text text' then ''korean''
      else if 0 < length (filter (\<lambda>c. is_ascii_letter c \<or> is_hangul c) text') \<and>
              7 / 10 < real (length (filter is_ascii_letter text'))
                       / real (length (filter (\<lambda>c. is_ascii_letter c \<or> is_hangul c) text'))
      then ''english'' else ''unknown'')"

record structure_report =
  document_type :: string
  word_count :: nat
  character_count :: nat
  headings :: "heading list"
  images :: "image_entry list"
  tables :: "table_entry list"
  links :: "link_entry list"
  language :: string
  report_metadata :: "(string \<times> meta_value) list"

text \<open>
  \<open>analyze_structure\<close> on the result of the conversion: the entries of the report are
  computed in the order of the dict display, so an exception of \<open>_extract_images\<close> or
  \<open>_extract_links\<close> is the outcome of the call.
\<close>

definition analyze_structure :: "DocumentConverterResult \<Rightarrow> py_error + structure_report" where
  "analyze_structure result =
     (case extract_images (markdown result) of
        Inl e \<Rightarrow> Inl e
      | Inr imgs \<Rightarrow>
          (case extract_links (markdown result) of
             Inl e \<Rightarrow> Inl e
           | Inr lks \<Rightarrow>
               Inr \<lparr>document_type = detect_document_type (markdown result),
                    word_count = count_words (markdown result),
                    character_count = length (markdown result),
                    headings = extract_headings (markdown result),
                    images = imgs,
                    tables = extract_tables (markdown result),
                    links = lks,
                    language = detect_language (markdown result),
                    report_metadata = metadata result\<rparr>))"

text \<open>A document with six ATX headings, three image references and a pipe table with a
  two-cell header, a separator row and two data rows.\<close>

definition sample_markdown :: ustr where
  "sample_markdown =
     join [10] (map ustr_of
       [''# H1'', ''## H2'', ''### H3'', ''#### H4'', ''##### H5'', ''###### H6'',
        ''![a](u1)'', ''![b](u2)'', ''![c](u3)'',
        ''| A | B |'', ''|---|---|'', ''| 1 | 2 |'', ''| 3 | 4 |''])"

lemma cap_star_suffix:
  "cap_star P k s = Some r \<Longrightarrow> \<exists>t. suffix t s \<and> k t = Some r"
proof (induction s)
  case Nil
  then show ?case by auto
next
  case (Cons c cs)
  show ?case
  proof (cases "P c \<and> cap_star P k cs \<noteq> None")
    case True
    with Cons.prems have "cap_star P k cs = Some r" by auto
    with Cons.IH obtain t where "suffix t cs" "k t = Some r" by blast
    then show ?thesis by (meson suffix_Cons)
  next
    case False
    with Cons.prems have "k (c # cs) = Some r" by (auto split: if_splits option.splits)
    then show ?thesis by auto
  qed
qed

lemma cap_upto_suffix:
  "cap_upto n P k s = Some r \<Longrightarrow> \<exists>t. suffix t s \<and> k t = Some r"
proof (induction n P k s rule: cap_upto.induct)
  case (1 P k s)
  then show ?case by auto
next
  case (2 n P k)
  then show ?case by auto
next
  case (3 n P k c cs)
  show ?case
  proof (cases "P c \<and> cap_upto n P k cs \<noteq> None")
    case True
    with 3(2) have "cap_upto n P k cs = Some r" by auto
    with 3(1) True obtain t where "suffix t cs" "k t = Some r" by blast
    then show ?thesis by (meson suffix_Cons)
  next
    case False
    with 3(2) have "k (c # cs) = Some r" by (auto split: if_splits option.splits)
    then show ?thesis by auto
  qed
qed

lemma heading_pattern_backslash:
  assumes "heading_pattern s = Some r"
  shows "92 \<in> set s"
proof -
  let ?K = "cap_one is_s (cap_star is_s (cap_mark
         (cap_one is_dot (cap_star is_dot (cap_eol cap_end)))))"
  obtain c cs where s: "s = c # cs"
    using assms by (cases s) (simp_all add: heading_pattern_def)
  from assms s have "cap_upto 5 is_hash (cap_mark (cap_one is_backslash ?K)) cs = Some r"
    by (simp add: heading_pattern_def split: if_splits)
  then obtain t where t: "suffix t cs" "cap_mark (cap_one is_backslash ?K) t = Some r"
    using cap_upto_suffix by blast
  then obtain r' where "cap_one is_backslash ?K t = Some r'"
    by (auto simp add: cap_mark_def)
  then obtain d ds where "t = d # ds" "is_backslash d"
    by (cases t) (auto split: if_splits)
  then have "92 \<in> set t" by (simp add: is_backslash_def)
  with t(1) s show ?thesis by (auto simp add: suffix_def)
qed

lemma finditer_no_match:
  "(\<And>bol t. suffix t s \<Longrightarrow> m bol t = None) \<Longrightarrow> finditer m bol pos s = []"
proof (induction s arbitrary: bol pos)
  case Nil
  then show ?case by simp
next
  case (Cons c cs)
  have "m bol (c # cs) = None" using Cons.prems by simp
  moreover have "finditer m (c = 10) (Suc pos) cs = []"
    using Cons.prems by (intro Cons.IH) (simp add: suffix_Cons)
  ultimately show ?case by simp
qed

lemma extract_headings_no_backslash:
  assumes "92 \<notin> set markdown'"
  shows "extract_headings markdown' = []"
proof -
  have "\<And>bol t. suffix t markdown' \<Longrightarrow> (if bol then heading_pattern t else None) = None"
  proof -
    fix bol t
    assume a: "suffix t markdown'"
    show "(if bol then heading_pattern t else None) = None"
    proof (cases "heading_pattern t")
      case None
      then show ?thesis by simp
    next
      case (Some r)
      then have "92 \<in> set t" by (rule heading_pattern_backslash)
      with a assms show ?thesis by (auto simp add: suffix_def)
    qed
  qed
  then have "finditer (\<lambda>bol s. if bol then heading_pattern s else None) True 0 markdown' = []"
    by (rule finditer_no_match)
  then show ?thesis by (simp add: extract_headings_def)
qed

lemma star_needs_backslash:
  "92 \<notin> set s \<Longrightarrow> star_of P (one_of is_backslash accept) s = None"
  by (induction s) (auto simp add: is_backslash_def)

lemma table_pattern_no_backslash:
  assumes "92 \<notin> set s"
  shows "table_pattern s = Some 0"
proof -
  have a1: "table_alt1 s = None"
    using assms by (cases s) (auto simp add: table_alt1_def is_backslash_def)
  have a2: "table_alt2 s = None"
  proof (cases s)
    case Nil
    then show ?thesis by (simp add: table_alt2_def)
  next
    case (Cons c cs)
    have "star_of not_backslash_n (one_of is_backslash accept) cs = None"
      using assms Cons by (intro star_needs_backslash) simp
    then show ?thesis unfolding Cons table_alt2_def by simp
  qed
  have r: "table_round s = None"
    using assms a2 by (cases s) (auto simp add: table_round_def alt_def is_backslash_def)
  have "table_rounds (length s) s = 0"
    using r by (cases "length s") simp_all
  with a1 a2 show ?thesis by (simp add: table_pattern_def alt_def)
qed

lemma finditer_spans_no_backslash:
  "92 \<notin> set s \<Longrightarrow>
   finditer_spans table_pattern pos s = map (\<lambda>i. (i, [])) [pos ..< Suc (pos + length s)]"
proof (induction s arbitrary: pos)
  case Nil
  then show ?case by (simp add: table_pattern_no_backslash)
next
  case (Cons c cs)
  have m: "table_pattern (c # cs) = Some 0"
    using Cons.prems by (rule table_pattern_no_backslash)
  have ih: "finditer_spans table_pattern (Suc pos) cs =
              map (\<lambda>i. (i, [])) [Suc pos ..< Suc (Suc pos + length cs)]"
    using Cons.prems by (intro Cons.IH) simp
  have lt: "pos < Suc (pos + length (c # cs))" by simp
  have e: "Suc (pos + length (c # cs)) = Suc (Suc pos + length cs)" by simp
  have "[pos ..< Suc (pos + length (c # cs))] = pos # [Suc pos ..< Suc (pos + length (c # cs))]"
    using lt by (rule upt_conv_Cons)
  then have u: "[pos ..< Suc (pos + length (c # cs))] =
                  pos # [Suc pos ..< Suc (Suc pos + length cs)]"
    unfolding e .
  have "finditer_spans table_pattern pos (c # cs) =
          (pos, []) # finditer_spans table_pattern (Suc pos) cs"
    using m by simp
  then show ?case unfolding u ih by simp
qed

lemma count_sub_no_backslash: "92 \<notin> set s \<Longrightarrow> count_sub backslash_n s = 0"
proof (induction s)
  case Nil
  then show ?case by simp
next
  case (Cons c cs)
  then have "take 2 (c # cs) \<noteq> [92, 110]" by (cases cs) auto
  with Cons show ?case by (simp add: backslash_n_def)
qed

lemma extract_tables_no_backslash:
  assumes "92 \<notin> set markdown'"
  shows "extract_tables markdown' =
           replicate (Suc (length markdown'))
             \<lparr>t_columns = - 1, t_rows = 0, t_header = [], t_line = 1\<rparr>"
proof -
  have c: "\<And>i. count_sub backslash_n (take i markdown') = 0"
  proof -
    fix i
    have "92 \<notin> set (take i markdown')" using assms by (meson in_set_takeD)
    then show "count_sub backslash_n (take i markdown') = 0" by (rule count_sub_no_backslash)
  qed
  have "extract_tables markdown' =
          map (\<lambda>i. \<lparr>t_columns = - 1, t_rows = 0, t_header = [], t_line = 1\<rparr>)
            [0 ..< Suc (length markdown')]"
    using finditer_spans_no_backslash[OF assms, of 0] count_sub_no_backslash[OF assms]
    by (simp add: extract_tables_def c py_strip_def comp_def)
  then show ?thesis by (simp add: map_replicate_const)
qed

lemma sample_markdown_no_backslash: "92 \<notin> set sample_markdown"
  by code_simp

text \<open>
  Claim C1, what the code does. On every Markdown text without a backslash (ordinary ATX
  headings, image references and pipe tables have none) \<open>_extract_headings\<close> finds no
  heading, and \<open>_extract_tables\<close> reports one entry per position of the text, each with
  \<open>columns = -1\<close> and \<open>rows = 0\<close>; on every text \<open>_extract_images\<close> raises \<open>re.error\<close>, and so
  does \<open>analyze_structure\<close>. The claim expects six headings, three images and one table with
  two columns and two rows.
\<close>

theorem analyze_structure_double_escaped:
  assumes "92 \<notin> set (markdown result)"
  shows "extract_headings (markdown result) = []
       \<and> extract_images (markdown result) = Inl (ReError ''unbalanced parenthesis at position 12'')
       \<and> analyze_structure result = Inl (ReError ''unbalanced parenthesis at position 12'')
       \<and> extract_tables (markdown result) =
           replicate (Suc (length (markdown result)))
             \<lparr>t_columns = - 1, t_rows = 0, t_header = [], t_line = 1\<rparr>"
  using extract_headings_no_backslash[OF assms] extract_tables_no_backslash[OF assms]
  by (simp add: extract_images_def analyze_structure_def)

text \<open>The sample document: no heading, an exception instead of the report, and 112 table
  entries, none with two columns.\<close>

theorem analyze_structure_double_escaped_witness:
  "extract_headings sample_markdown = []
   \<and> extract_images sample_markdown = Inl (ReError ''unbalanced parenthesis at position 12'')
   \<and> analyze_structure \<lparr>markdown = sample_markdown, title = None, metadata = []\<rparr>
       = Inl (ReError ''unbalanced parenthesis at position 12'')
   \<and> extract_tables sample_markdown =
       replicate (Suc (length sample_markdown))
         \<lparr>t_columns = - 1, t_rows = 0, t_header = [], t_line = 1\<rparr>"
proof -
  have h: "92 \<notin> set (markdown \<lparr>markdown = sample_markdown, title = None, metadata = []\<rparr>)"
    using sample_markdown_no_backslash by simp
  from analyze_structure_double_escaped[OF h] show ?thesis by simp
qed

end
